theory Spec2Isabelle
  imports Complex_Main
begin

section \<open>JavaScript numbers\<close>

text \<open>
  The renderer computes with JavaScript numbers. The model keeps the special values of
  a number (NaN, the two infinities, the negative zero) and the rules of the operations
  on them, and computes every finite value exactly, as a real. It is an idealisation of
  the 64-bit numbers of the code: their rounding and their overflow are outside the
  model, so it serves for what does not depend on them (which branch a degenerate input
  takes, whether a result is a number at all) and not for the exact position of a
  computed point. \<open>Fin 0\<close> is the positive zero and \<open>NZero\<close> the negative one.
\<close>

datatype jsnum = Fin real | NZero | PInf | NInf | NaN

fun finite_num :: "jsnum \<Rightarrow> bool" where
  "finite_num (Fin r) = True"
| "finite_num NZero = True"
| "finite_num PInf = False"
| "finite_num NInf = False"
| "finite_num NaN = False"

fun val :: "jsnum \<Rightarrow> real" where
  "val (Fin r) = r"
| "val NZero = 0"
| "val PInf = 0"
| "val NInf = 0"
| "val NaN = 0"

fun is_inf :: "jsnum \<Rightarrow> bool" where
  "is_inf PInf = True"
| "is_inf NInf = True"
| "is_inf (Fin r) = False"
| "is_inf NZero = False"
| "is_inf NaN = False"

fun is_zero :: "jsnum \<Rightarrow> bool" where
  "is_zero (Fin r) = (r = 0)"
| "is_zero NZero = True"
| "is_zero PInf = False"
| "is_zero NInf = False"
| "is_zero NaN = False"

text \<open>The sign bit of a number (NaN has none that matters).\<close>

fun neg_sign :: "jsnum \<Rightarrow> bool" where
  "neg_sign (Fin r) = (r < 0)"
| "neg_sign NZero = True"
| "neg_sign PInf = False"
| "neg_sign NInf = True"
| "neg_sign NaN = False"

definition mk_zero :: "bool \<Rightarrow> jsnum" where
  "mk_zero s = (if s then NZero else Fin 0)"

definition mk_inf :: "bool \<Rightarrow> jsnum" where
  "mk_inf s = (if s then NInf else PInf)"

definition mk_fin :: "bool \<Rightarrow> real \<Rightarrow> jsnum" where
  "mk_fin s r = (if r = 0 then mk_zero s else Fin r)"

text \<open>Unary minus flips the sign, also of a zero.\<close>

fun js_neg :: "jsnum \<Rightarrow> jsnum" where
  "js_neg (Fin r) = (if r = 0 then NZero else Fin (- r))"
| "js_neg NZero = Fin 0"
| "js_neg PInf = NInf"
| "js_neg NInf = PInf"
| "js_neg NaN = NaN"

text \<open>
  \<open>a + b\<close>: opposite infinities give NaN; a zero sum is negative only when both
  operands are negative zeros.
\<close>

definition js_add :: "jsnum \<Rightarrow> jsnum \<Rightarrow> jsnum" where
  "js_add a b =
     (if a = NaN \<or> b = NaN then NaN
      else if is_inf a then (if is_inf b \<and> a \<noteq> b then NaN else a)
      else if is_inf b then b
      else if val a + val b = 0 then mk_zero (neg_sign a \<and> neg_sign b)
      else Fin (val a + val b))"

definition js_sub :: "jsnum \<Rightarrow> jsnum \<Rightarrow> jsnum" where
  "js_sub a b = js_add a (js_neg b)"

text \<open>\<open>a * b\<close>: infinity times zero is NaN; the sign is the exclusive or of the signs.\<close>

definition js_mul :: "jsnum \<Rightarrow> jsnum \<Rightarrow> jsnum" where
  "js_mul a b =
     (if a = NaN \<or> b = NaN then NaN
      else if (is_inf a \<and> is_zero b) \<or> (is_zero a \<and> is_inf b) then NaN
      else if is_inf a \<or> is_inf b then mk_inf (neg_sign a \<noteq> neg_sign b)
      else mk_fin (neg_sign a \<noteq> neg_sign b) (val a * val b))"

text \<open>
  \<open>a / b\<close> never raises: \<open>0 / 0\<close> and \<open>\<infinity> / \<infinity>\<close> are NaN, any other
  quotient by a zero is an infinity.
\<close>

definition js_div :: "jsnum \<Rightarrow> jsnum \<Rightarrow> jsnum" where
  "js_div a b =
     (if a = NaN \<or> b = NaN then NaN
      else if (is_inf a \<and> is_inf b) \<or> (is_zero a \<and> is_zero b) then NaN
      else if is_inf a \<or> is_zero b then mk_inf (neg_sign a \<noteq> neg_sign b)
      else if is_inf b then mk_zero (neg_sign a \<noteq> neg_sign b)
      else mk_fin (neg_sign a \<noteq> neg_sign b) (val a / val b))"

text \<open>\<open>a <= b\<close>: false as soon as one side is NaN; the two zeros are equal.\<close>

definition js_le :: "jsnum \<Rightarrow> jsnum \<Rightarrow> bool" where
  "js_le a b =
     (a \<noteq> NaN \<and> b \<noteq> NaN \<and>
      (a = NInf \<or> b = PInf \<or> (finite_num a \<and> finite_num b \<and> val a \<le> val b)))"

definition js_ge :: "jsnum \<Rightarrow> jsnum \<Rightarrow> bool" where
  "js_ge a b = js_le b a"

text \<open>
  \<open>Math.round\<close>: the nearest integer, a tie going towards \<open>+\<infinity>\<close>; the result keeps
  the sign of its argument when it is a zero.
\<close>

fun Math_round :: "jsnum \<Rightarrow> jsnum" where
  "Math_round (Fin r) = mk_fin (r < 0) (of_int \<lfloor>r + 1 / 2\<rfloor>)"
| "Math_round NZero = NZero"
| "Math_round PInf = PInf"
| "Math_round NInf = NInf"
| "Math_round NaN = NaN"

text \<open>\<open>v ?? 0\<close> on an optional number.\<close>

definition nullish0 :: "jsnum option \<Rightarrow> jsnum" where
  "nullish0 v = (case v of None \<Rightarrow> Fin 0 | Some n \<Rightarrow> n)"

text \<open>\<open>!v\<close> on an optional number: undefined, null, both zeros and NaN are falsy.\<close>

definition falsy :: "jsnum option \<Rightarrow> bool" where
  "falsy v = (case v of None \<Rightarrow> True | Some n \<Rightarrow> is_zero n \<or> n = NaN)"

section \<open>Geometry: \<open>lineIntersection\<close>\<close>

record ILine =
  x1 :: jsnum
  y1 :: jsnum
  x2 :: jsnum
  y2 :: jsnum

record Point =
  px :: jsnum
  py :: jsnum

text \<open>
  The function returns \<open>undefined\<close> (here \<open>None\<close>) by falling off its end when the
  range test fails.
\<close>

definition lineIntersection :: "ILine \<Rightarrow> ILine \<Rightarrow> Point option" where
  "lineIntersection line1 line2 =
     (let s1X = js_sub (x2 line1) (x1 line1);
          s1Y = js_sub (y2 line1) (y1 line1);
          s2X = js_sub (x2 line2) (x1 line2);
          s2Y = js_sub (y2 line2) (y1 line2);
          s = js_div
                (js_add (js_mul (js_neg s1Y) (js_sub (x1 line1) (x1 line2)))
                        (js_mul s1X (js_sub (y1 line1) (y1 line2))))
                (js_add (js_mul (js_neg s2X) s1Y) (js_mul s1X s2Y));
          t = js_div
                (js_sub (js_mul s2X (js_sub (y1 line1) (y1 line2)))
                        (js_mul s2Y (js_sub (x1 line1) (x1 line2))))
                (js_add (js_mul (js_neg s2X) s1Y) (js_mul s1X s2Y))
      in if js_ge s (Fin 0) \<and> js_le s (Fin 1) \<and> js_ge t (Fin 0) \<and> js_le t (Fin 1)
         then Some \<lparr>px = js_add (x1 line1) (js_mul t s1X),
                     py = js_add (y1 line1) (js_mul t s1Y)\<rparr>
         else None)"

section \<open>The graph model\<close>

text \<open>
  A layout node: the fields of the input node (\<open>name\<close>, \<open>type\<close>) and those the
  simulation and the renderer add. \<open>nx\<close> and \<open>ny\<close> are the fields \<open>x\<close> and \<open>y\<close>
  of the source. The position and the width are numbers or undefined (the node type of
  the layout library declares \<open>x?: number\<close>), and \<open>None\<close> is undefined. The pins
  \<open>fx\<close> and \<open>fy\<close> are numbers, null or undefined; the code sets both and only tests
  a pin with \<open>!\<close>, which does not tell them apart, so \<open>None\<close> is either.
\<close>

record IATNGraphLayoutNode =
  name :: string
  type :: int
  nx :: "jsnum option"
  ny :: "jsnum option"
  fx :: "jsnum option"
  fy :: "jsnum option"
  width :: "jsnum option"

record Label =
  content :: string
  lclass :: "string option"

text \<open>
  The end of a link is an index into the node sequence in the input, and the node
  itself once the force layout has resolved it.
\<close>

datatype NodeRef = Index int | Node IATNGraphLayoutNode

record IATNLink =
  source :: NodeRef
  target :: NodeRef
  labels :: "Label list"

definition ATNRuleType :: int where
  "ATNRuleType = 0"

definition RULE_START :: int where
  "RULE_START = 2"

definition RULE_STOP :: int where
  "RULE_STOP = 7"

definition isATNLayoutNode :: "NodeRef \<Rightarrow> bool" where
  "isATNLayoutNode r = (case r of Node n \<Rightarrow> True | Index i \<Rightarrow> False)"

text \<open>\<open>xs[i]\<close>: undefined outside the sequence, never an exception by itself.\<close>

definition js_index :: "'a list \<Rightarrow> int \<Rightarrow> 'a option" where
  "js_index xs i = (if 0 \<le> i \<and> i < int (length xs) then Some (xs ! nat i) else None)"

section \<open>Edge clipping: \<open>endCoordinate\<close>\<close>

text \<open>
  One coordinate of the end of the line of a link, the horizontal or the vertical one.
  The source builds the four lines \<open>line2\<close> one after the other and returns at the
  first intersection; the nested cases are these returns.
\<close>

definition endCoordinate :: "bool \<Rightarrow> IATNLink \<Rightarrow> jsnum" where
  "endCoordinate horizontal element =
     (if isATNLayoutNode (source element) \<and> isATNLayoutNode (target element) then
        (case source element of
           Index i \<Rightarrow> Fin 0
         | Node src \<Rightarrow>
        (case target element of
           Index j \<Rightarrow> Fin 0
         | Node tgt \<Rightarrow>
             (let centre = nullish0 (if horizontal then nx tgt else ny tgt);
                  coord = (\<lambda>intersection. if horizontal then px intersection else py intersection)
              in if type tgt = ATNRuleType then
                   (let sourceX = nullish0 (nx src);
                        sourceY = nullish0 (ny src);
                        targetX = nullish0 (nx tgt);
                        targetY = nullish0 (ny tgt);
                        targetWidth = nullish0 (width tgt);
                        line1 = \<lparr>x1 = sourceX, y1 = sourceY, x2 = targetX, y2 = targetY\<rparr>
                    in case lineIntersection line1
                         \<lparr>x1 = js_sub targetX (js_div targetWidth (Fin 2)),
                          y1 = js_sub targetY (Fin 25),
                          x2 = js_add targetX (js_div targetWidth (Fin 2)),
                          y2 = js_sub targetY (Fin 25)\<rparr> of
                         Some intersection \<Rightarrow> coord intersection
                       | None \<Rightarrow>
                      (case lineIntersection line1
                         \<lparr>x1 = js_sub targetX (js_div targetWidth (Fin 2)),
                          y1 = js_add targetY (Fin 25),
                          x2 = js_add targetX (js_div targetWidth (Fin 2)),
                          y2 = js_add targetY (Fin 25)\<rparr> of
                         Some intersection \<Rightarrow> coord intersection
                       | None \<Rightarrow>
                      (case lineIntersection line1
                         \<lparr>x1 = js_sub targetX (js_div targetWidth (Fin 2)),
                          y1 = js_sub targetY (Fin 25),
                          x2 = js_sub targetX (js_div targetWidth (Fin 2)),
                          y2 = js_add targetY (Fin 25)\<rparr> of
                         Some intersection \<Rightarrow> coord intersection
                       | None \<Rightarrow>
                      (case lineIntersection line1
                         \<lparr>x1 = js_add targetX (js_div targetWidth (Fin 2)),
                          y1 = js_sub targetY (Fin 25),
                          x2 = js_add targetX (js_div targetWidth (Fin 2)),
                          y2 = js_add targetY (Fin 25)\<rparr> of
                         Some intersection \<Rightarrow> coord intersection
                       | None \<Rightarrow> centre))))
                 else centre)))
      else Fin 0)"

subsection \<open>The two-segment formula on exact values\<close>

text \<open>
  The common denominator of the formula, the parameter \<open>s\<close> along the second
  segment and the parameter \<open>t\<close> along the first, on the exact values of the
  coordinates.
\<close>

definition fin_line :: "ILine \<Rightarrow> bool" where
  "fin_line l =
     (finite_num (x1 l) \<and> finite_num (y1 l) \<and> finite_num (x2 l) \<and> finite_num (y2 l))"

definition fin_opt :: "jsnum option \<Rightarrow> bool" where
  "fin_opt v = (case v of None \<Rightarrow> True | Some n \<Rightarrow> finite_num n)"

definition denominator :: "ILine \<Rightarrow> ILine \<Rightarrow> real" where
  "denominator l1 l2 =
     - (val (x2 l2) - val (x1 l2)) * (val (y2 l1) - val (y1 l1))
     + (val (x2 l1) - val (x1 l1)) * (val (y2 l2) - val (y1 l2))"

definition param_s :: "ILine \<Rightarrow> ILine \<Rightarrow> real" where
  "param_s l1 l2 =
     (- (val (y2 l1) - val (y1 l1)) * (val (x1 l1) - val (x1 l2))
      + (val (x2 l1) - val (x1 l1)) * (val (y1 l1) - val (y1 l2))) / denominator l1 l2"

definition param_t :: "ILine \<Rightarrow> ILine \<Rightarrow> real" where
  "param_t l1 l2 =
     ((val (x2 l2) - val (x1 l2)) * (val (y1 l1) - val (y1 l2))
      - (val (y2 l2) - val (y1 l2)) * (val (x1 l1) - val (x1 l2))) / denominator l1 l2"

definition in_unit :: "real \<Rightarrow> bool" where
  "in_unit r = (0 \<le> r \<and> r \<le> 1)"

text \<open>The segments cross: the formula is defined and both parameters are in range.\<close>

definition crosses :: "ILine \<Rightarrow> ILine \<Rightarrow> bool" where
  "crosses l1 l2 =
     (denominator l1 l2 \<noteq> 0 \<and> in_unit (param_s l1 l2) \<and> in_unit (param_t l1 l2))"

definition crossing :: "ILine \<Rightarrow> ILine \<Rightarrow> real \<times> real" where
  "crossing l1 l2 =
     (val (x1 l1) + param_t l1 l2 * (val (x2 l1) - val (x1 l1)),
      val (y1 l1) + param_t l1 l2 * (val (y2 l1) - val (y1 l1)))"

text \<open>The edges as \<open>endCoordinate\<close> builds them, from the numbers of the target node.\<close>

definition targetEdges :: "IATNGraphLayoutNode \<Rightarrow> ILine list" where
  "targetEdges tgt =
     (let targetX = nullish0 (nx tgt);
          targetY = nullish0 (ny tgt);
          targetWidth = nullish0 (width tgt)
      in [\<lparr>x1 = js_sub targetX (js_div targetWidth (Fin 2)), y1 = js_sub targetY (Fin 25),
           x2 = js_add targetX (js_div targetWidth (Fin 2)), y2 = js_sub targetY (Fin 25)\<rparr>,
          \<lparr>x1 = js_sub targetX (js_div targetWidth (Fin 2)), y1 = js_add targetY (Fin 25),
           x2 = js_add targetX (js_div targetWidth (Fin 2)), y2 = js_add targetY (Fin 25)\<rparr>,
          \<lparr>x1 = js_sub targetX (js_div targetWidth (Fin 2)), y1 = js_sub targetY (Fin 25),
           x2 = js_sub targetX (js_div targetWidth (Fin 2)), y2 = js_add targetY (Fin 25)\<rparr>,
          \<lparr>x1 = js_add targetX (js_div targetWidth (Fin 2)), y1 = js_sub targetY (Fin 25),
           x2 = js_add targetX (js_div targetWidth (Fin 2)), y2 = js_add targetY (Fin 25)\<rparr>])"

text \<open>The tries of \<open>endCoordinate\<close> as a loop: the first edge with an intersection wins.\<close>

fun firstIntersection :: "ILine \<Rightarrow> ILine list \<Rightarrow> Point option" where
  "firstIntersection l [] = None"
| "firstIntersection l (e # es) =
     (case lineIntersection l e of Some p \<Rightarrow> Some p | None \<Rightarrow> firstIntersection l es)"

definition centreLine :: "IATNGraphLayoutNode \<Rightarrow> IATNGraphLayoutNode \<Rightarrow> ILine" where
  "centreLine src tgt =
     \<lparr>x1 = nullish0 (nx src), y1 = nullish0 (ny src),
      x2 = nullish0 (nx tgt), y2 = nullish0 (ny tgt)\<rparr>"

section \<open>Label flow: \<open>appendLinkText\<close>\<close>

text \<open>
  A \<open>tspan\<close> element appended to the label of a link: its text and the class set on it.
  Every span has the attributes \<open>x = 0\<close> and \<open>dy = 1.5em\<close>, so one span is one line.
\<close>

record tspan =
  span_text :: string
  span_class :: "string option"

text \<open>The decimal text of an integer, as a template literal prints it.\<close>

definition digit_char :: "nat \<Rightarrow> char" where
  "digit_char d = ''0123456789'' ! d"

fun digits_of :: "nat \<Rightarrow> string" where
  "digits_of n = (if n < 10 then [digit_char n] else digits_of (n div 10) @ [digit_char (n mod 10)])"

definition number_text :: "int \<Rightarrow> string" where
  "number_text i = (if i < 0 then CHR ''-'' # digits_of (nat (- i)) else digits_of (nat i))"

text \<open>A class is set on the span only when \<open>label.class\<close> is truthy (a non-empty string).\<close>

definition label_span :: "Label \<Rightarrow> tspan" where
  "label_span label =
     \<lparr>span_text = content label,
      span_class = (case lclass label of None \<Rightarrow> None
                    | Some c \<Rightarrow> if c = [] then None else Some c)\<rparr>"

text \<open>
  The loop over the labels of one link: \<open>lineNumber\<close> is the counter before the
  increment, \<open>n\<close> is \<open>link.labels.length\<close>; the loop breaks when the counter reaches
  \<open>maxLabelCount\<close>, after appending the summary span if labels remain.
\<close>

fun appendLabels :: "int \<Rightarrow> nat \<Rightarrow> int \<Rightarrow> Label list \<Rightarrow> tspan list" where
  "appendLabels maxLabelCount n lineNumber [] = []"
| "appendLabels maxLabelCount n lineNumber (label # rest) =
     (if lineNumber + 1 = maxLabelCount then
        label_span label #
          (if int n - maxLabelCount > 0
           then [\<lparr>span_text = number_text (int n - maxLabelCount) @ '' more ...'',
                  span_class = None\<rparr>]
           else [])
      else label_span label # appendLabels maxLabelCount n (lineNumber + 1) rest)"

definition summary_span :: "int \<Rightarrow> nat \<Rightarrow> tspan" where
  "summary_span m n =
     \<lparr>span_text = number_text (int n - m) @ '' more ...'', span_class = None\<rparr>"

definition linkText :: "int \<Rightarrow> IATNLink \<Rightarrow> tspan list" where
  "linkText maxLabelCount link =
     appendLabels maxLabelCount (length (labels link)) 0 (labels link)"

definition appendLinkText :: "int \<Rightarrow> IATNLink list \<Rightarrow> tspan list list" where
  "appendLinkText maxLabelCount links = map (linkText maxLabelCount) links"

section \<open>Initial pins: \<open>resetNodePositions\<close>\<close>

text \<open>
  The body of the loop over the nodes. Both pins are cleared first; the tests
  \<open>!node.fy\<close> that follow read the field just cleared. The test
  \<open>node.x === undefined\<close> is \<open>nx node = None\<close>, the position being a number or
  undefined.
\<close>

definition resetNode :: "IATNGraphLayoutNode \<Rightarrow> IATNGraphLayoutNode" where
  "resetNode node0 =
     (let node = node0\<lparr>fx := None, fy := None\<rparr>
      in if type node = RULE_START then
           (let node = (if nx node = None then node\<lparr>nx := Some (Fin (- 1000))\<rparr> else node)
            in if falsy (fy node) then node\<lparr>fy := Some (Fin 0)\<rparr> else node)
         else if type node = RULE_STOP then
           (if falsy (fy node) then node\<lparr>fy := Some (Fin 0)\<rparr> else node)
         else node)"

definition resetNodePositions :: "IATNGraphLayoutNode list \<Rightarrow> IATNGraphLayoutNode list" where
  "resetNodePositions ns = map resetNode ns"

section \<open>Dragging and snapping\<close>

definition gridSize :: jsnum where
  "gridSize = Fin 20"

definition snapToGrid :: "jsnum \<Rightarrow> jsnum" where
  "snapToGrid v = js_mul (Math_round (js_div v gridSize)) gridSize"

text \<open>
  What the handlers read of a drag event: the pointer position and the number of
  active gestures. The subject of the event is the dragged node, passed beside it.
\<close>

record D3DragEvent =
  ev_x :: jsnum
  ev_y :: jsnum
  active :: int

text \<open>The force simulation, as far as the handlers touch it.\<close>

record Simulation =
  alphaTarget :: jsnum
  running :: bool

definition dragStarted ::
  "D3DragEvent \<Rightarrow> Simulation \<times> IATNGraphLayoutNode \<Rightarrow> Simulation \<times> IATNGraphLayoutNode" where
  "dragStarted e st =
     (let sim = (if active e = 0 then (fst st)\<lparr>alphaTarget := Fin (3 / 10), running := True\<rparr>
                 else fst st)
      in (sim, (snd st)\<lparr>fx := Some (ev_x e), fy := Some (ev_y e)\<rparr>))"

definition dragged :: "D3DragEvent \<Rightarrow> IATNGraphLayoutNode \<Rightarrow> IATNGraphLayoutNode" where
  "dragged e subject =
     subject\<lparr>fx := Some (snapToGrid (ev_x e)), fy := Some (snapToGrid (ev_y e))\<rparr>"

definition doubleClicked :: "IATNGraphLayoutNode \<Rightarrow> IATNGraphLayoutNode" where
  "doubleClicked node = node\<lparr>fx := None, fy := None\<rparr>"

text \<open>A drag: one start event, then the drag-move events in order, on the same node.\<close>

definition dragSequence ::
  "D3DragEvent \<Rightarrow> D3DragEvent list \<Rightarrow> Simulation \<times> IATNGraphLayoutNode
     \<Rightarrow> Simulation \<times> IATNGraphLayoutNode" where
  "dragSequence start moves st =
     (let st1 = dragStarted start st
      in (fst st1, foldl (\<lambda>subject e. dragged e subject) (snd st1) moves))"

definition multiple_of_grid :: "jsnum \<Rightarrow> bool" where
  "multiple_of_grid v = (finite_num v \<and> of_int \<lfloor>val v / 20\<rfloor> * 20 = val v)"

definition fin_event :: "D3DragEvent \<Rightarrow> bool" where
  "fin_event e = (finite_num (ev_x e) \<and> finite_num (ev_y e))"

section \<open>The view transform\<close>

record ZoomTransform =
  scale_k :: jsnum
  trans_x :: jsnum
  trans_y :: jsnum

text \<open>
  The zoom library is not part of the sources. The renderer takes from it the identity
  transform and the two operations that build a transform; they are parameters of the
  model.
\<close>

record D3Zoom =
  zoomIdentity :: ZoomTransform
  scale_by :: "ZoomTransform \<Rightarrow> jsnum \<Rightarrow> ZoomTransform"
  translate_by :: "ZoomTransform \<Rightarrow> jsnum \<Rightarrow> jsnum \<Rightarrow> ZoomTransform"

record IATNGraphRendererData =
  objectName :: string
  maxLabelCount :: int
  nodes :: "IATNGraphLayoutNode list"
  links :: "IATNLink list"
  initialScale :: jsnum
  initialTranslation_x :: "jsnum option"
  initialTranslation_y :: "jsnum option"

text \<open>
  The renderer: its data, the size of the SVG element (\<open>None\<close> when the element is
  missing) and the transform the zoom behaviour holds for the top group.
\<close>

record ATNGraphRenderer =
  rdata :: IATNGraphRendererData
  clientWidth :: "jsnum option"
  clientHeight :: "jsnum option"
  currentTransformation :: ZoomTransform

text \<open>
  Modelled from the spec: \<open>zoom.transform\<close> of the zoom library, which is not in the
  sources. The reset operation restores the given scale and translation: the view
  transform becomes the transform passed.
\<close>

definition zoom_transform :: "ZoomTransform \<Rightarrow> ATNGraphRenderer \<Rightarrow> ATNGraphRenderer" where
  "zoom_transform t r = r\<lparr>currentTransformation := t\<rparr>"

definition resetTransformation :: "D3Zoom \<Rightarrow> ATNGraphRenderer \<Rightarrow> ATNGraphRenderer" where
  "resetTransformation d3 r =
     (let xTranslate = (case initialTranslation_x (rdata r) of
                          Some v \<Rightarrow> v
                        | None \<Rightarrow> js_div (nullish0 (clientWidth r)) (Fin 2));
          yTranslate = (case initialTranslation_y (rdata r) of
                          Some v \<Rightarrow> v
                        | None \<Rightarrow> js_div (nullish0 (clientHeight r)) (Fin 2));
          r1 = zoom_transform
                 (translate_by d3 (scale_by d3 (zoomIdentity d3) (initialScale (rdata r)))
                    xTranslate yTranslate) r
      in r1\<lparr>rdata := (rdata r1)\<lparr>nodes := resetNodePositions (nodes (rdata r1))\<rparr>\<rparr>)"

text \<open>The scale extent the renderer configures on the zoom behaviour.\<close>

definition scaleExtent :: "jsnum \<times> jsnum" where
  "scaleExtent = (Fin (15 / 100), Fin 3)"

definition in_extent :: "jsnum \<Rightarrow> bool" where
  "in_extent v = (js_le (fst scaleExtent) v \<and> js_le v (snd scaleExtent))"

text \<open>\<open>Math.min\<close> and \<open>Math.max\<close>: NaN if an argument is NaN; \<open>-0\<close> is below \<open>+0\<close>.\<close>

definition Math_min :: "jsnum \<Rightarrow> jsnum \<Rightarrow> jsnum" where
  "Math_min a b =
     (if a = NaN \<or> b = NaN then NaN
      else if is_zero a \<and> is_zero b then mk_zero (neg_sign a \<or> neg_sign b)
      else if js_le a b then a else b)"

definition Math_max :: "jsnum \<Rightarrow> jsnum \<Rightarrow> jsnum" where
  "Math_max a b =
     (if a = NaN \<or> b = NaN then NaN
      else if is_zero a \<and> is_zero b then mk_zero (neg_sign a \<and> neg_sign b)
      else if js_le a b then b else a)"

text \<open>
  Modelled from the spec: the zoom and pan gestures are handled inside the zoom
  library, which is not in the sources. A gesture asks for a transform; the view
  transform takes its translation and its scale, the scale clamped to the extent.
\<close>

definition zoomGesture :: "ZoomTransform \<Rightarrow> ZoomTransform \<Rightarrow> ZoomTransform" where
  "zoomGesture current requested =
     \<lparr>scale_k = Math_max (fst scaleExtent) (Math_min (snd scaleExtent) (scale_k requested)),
      trans_x = trans_x requested,
      trans_y = trans_y requested\<rparr>"

definition zoomGestures :: "ZoomTransform \<Rightarrow> ZoomTransform list \<Rightarrow> ZoomTransform" where
  "zoomGestures t gs = foldl zoomGesture t gs"

section \<open>Rendering the nodes and the links\<close>

record StateInfo =
  short :: string
  long :: string

definition newline :: string where
  "newline = [CHR 0x0A]"

definition quote :: string where
  "quote = [CHR 0x27]"

text \<open>The table \<open>stateType\<close>, indexed by the type of a node.\<close>

definition stateType :: "StateInfo list" where
  "stateType =
     [\<lparr>short = ''RULE'',
       long = ''Rule call'' @ newline @
              ''This is not a real ATN state but a placeholder to indicate a sub rule being '' @
              quote @ ''called'' @ quote @ '' by the rule transition.''\<rparr>,
      \<lparr>short = ''BASIC'', long = ''Basic state''\<rparr>,
      \<lparr>short = ''START'', long = ''Rule start'' @ newline @ ''The entry node of a rule.''\<rparr>,
      \<lparr>short = ''BSTART'',
       long = ''Block start state'' @ newline @ ''The start of a regular (...) block.''\<rparr>,
      \<lparr>short = ''PBSTART'',
       long = ''Plus block start state'' @ newline @
              ''Start of the actual block in a (A|b|...)+ loop.''\<rparr>,
      \<lparr>short = ''SBSTART'',
       long = ''Star block start'' @ newline @
              ''Start of the actual block in a (A|b|...)* loop.''\<rparr>,
      \<lparr>short = ''TSTART'', long = ''Token start'' @ newline @ ''The entry state of a rule.''\<rparr>,
      \<lparr>short = ''STOP'', long = ''Rule stop'' @ newline @ ''The exit state of a rule.''\<rparr>,
      \<lparr>short = ''BEND'',
       long = ''Block end'' @ newline @ ''Terminal node of a simple (A|b|...) block.''\<rparr>,
      \<lparr>short = ''SLBACK'',
       long = ''Star loop back'' @ newline @
              ''The loop back state from the inner block to the star loop entry state.''\<rparr>,
      \<lparr>short = ''SLENTRY'',
       long = ''Star loop entry'' @ newline @ ''Entry + exit state for (A|B|...)* loops.''\<rparr>,
      \<lparr>short = ''PLBACK'',
       long = ''Plus loop back'' @ newline @
              ''The loop back state from the inner block to the plus block start state.''\<rparr>,
      \<lparr>short = ''LEND'', long = ''Loop end'' @ newline @ ''Marks the end of a * or + loop.''\<rparr>]"

text \<open>
  The exceptions of \<open>render\<close>: reading a property of \<open>undefined\<close> raises a TypeError,
  and the force layout of the library throws an Error with a message.
\<close>

datatype js_error = TypeError | Error string

text \<open>A callback run on each element in turn: the first exception ends the run.\<close>

fun mapE :: "('a \<Rightarrow> js_error + 'b) \<Rightarrow> 'a list \<Rightarrow> js_error + 'b list" where
  "mapE f [] = Inr []"
| "mapE f (a # as) =
     (case f a of
        Inl e \<Rightarrow> Inl e
      | Inr b \<Rightarrow> (case mapE f as of Inl e \<Rightarrow> Inl e | Inr bs \<Rightarrow> Inr (b # bs)))"

text \<open>
  The \<open>marker-end\<close> attribute of the line of a link: \<open>nodes[link.target].type\<close> is read
  with no test that the node exists. A target that is not a number names no element of
  the array.
\<close>

definition markerEnd :: "IATNGraphLayoutNode list \<Rightarrow> IATNLink \<Rightarrow> js_error + string" where
  "markerEnd ns link =
     (case (case target link of Index i \<Rightarrow> js_index ns i | Node n \<Rightarrow> None) of
        None \<Rightarrow> Inl TypeError
      | Some n \<Rightarrow>
          Inr (if type n = ATNRuleType then ''url(#transitionEndRect)''
               else ''url(#transitionEndCircle)''))"

text \<open>The target of a link is an index inside the node sequence.\<close>

definition valid_target :: "IATNGraphLayoutNode list \<Rightarrow> IATNLink \<Rightarrow> bool" where
  "valid_target ns link =
     (case target link of Index i \<Rightarrow> 0 \<le> i \<and> i < int (length ns) | Node n \<Rightarrow> False)"

text \<open>The source of a link is a node already or an index inside the node sequence.\<close>

definition valid_source :: "IATNGraphLayoutNode list \<Rightarrow> IATNLink \<Rightarrow> bool" where
  "valid_source ns link =
     (case source link of Index i \<Rightarrow> 0 \<le> i \<and> i < int (length ns) | Node n \<Rightarrow> True)"

text \<open>
  The marker of the line of a link whose target is the node with that index: the
  rectangle marker for a rule call, the circle marker for every other type.
\<close>

definition markerFor :: "IATNGraphLayoutNode list \<Rightarrow> IATNLink \<Rightarrow> string" where
  "markerFor ns link =
     (case target link of
        Index i \<Rightarrow> if type (ns ! nat i) = ATNRuleType then ''url(#transitionEndRect)''
                   else ''url(#transitionEndCircle)''
      | Node n \<Rightarrow> [])"

text \<open>
  Modelled from the spec: the force layout of the library, which is not in the sources.
  When \<open>render\<close> adds the link force to the simulation, the library resolves the two
  ends of every link in turn, the source first: an end that is an index becomes the
  node with that index (a reference is an index before the model is resolved to live
  node objects and a live node reference afterward), an end that is a node already is
  kept. For an index that names no node the library throws an Error whose message is
  \<open>node not found: \<close> followed by the index.
\<close>

definition findNode :: "IATNGraphLayoutNode list \<Rightarrow> NodeRef \<Rightarrow> js_error + NodeRef" where
  "findNode ns r =
     (case r of
        Node n \<Rightarrow> Inr (Node n)
      | Index i \<Rightarrow>
          (case js_index ns i of
             None \<Rightarrow> Inl (Error (''node not found: '' @ number_text i))
           | Some n \<Rightarrow> Inr (Node n)))"

definition resolveLink :: "IATNGraphLayoutNode list \<Rightarrow> IATNLink \<Rightarrow> js_error + IATNLink" where
  "resolveLink ns link =
     (case findNode ns (source link) of
        Inl e \<Rightarrow> Inl e
      | Inr s \<Rightarrow>
          (case findNode ns (target link) of
             Inl e \<Rightarrow> Inl e
           | Inr t \<Rightarrow> Inr (link\<lparr>source := s, target := t\<rparr>)))"

definition forceLink ::
  "IATNGraphLayoutNode list \<Rightarrow> IATNLink list \<Rightarrow> js_error + IATNLink list" where
  "forceLink ns ls = mapE (resolveLink ns) ls"

text \<open>The type of a node is one of the 13 variants of the table.\<close>

definition known_type :: "IATNGraphLayoutNode \<Rightarrow> bool" where
  "known_type node = (0 \<le> type node \<and> type node \<le> 12)"

datatype Shape = Rect int int | Circle int

text \<open>
  The element appended for a node: a rectangle with its corner radii \<open>rx\<close> and \<open>ry\<close>
  for a rule call, a circle with its radius otherwise, the CSS class and the tooltip.
\<close>

record Figure =
  shape :: Shape
  cssClass :: string
  title :: string

definition renderFigure :: "string \<Rightarrow> IATNGraphLayoutNode \<Rightarrow> js_error + Figure" where
  "renderFigure objName figure =
     (case js_index stateType (type figure) of
        None \<Rightarrow> Inl TypeError
      | Some info \<Rightarrow>
          (let recursive = (name figure = objName);
               css = (if recursive then (''state '' @ short info) @ '' recursive''
                      else ''state '' @ short info)
           in Inr \<lparr>shape = (if type figure = ATNRuleType
                             then Rect 5 (if recursive then 20 else 5) else Circle 30),
                   cssClass = css,
                   title = long info\<rparr>))"

definition renderDescription :: "IATNGraphLayoutNode \<Rightarrow> js_error + string" where
  "renderDescription node =
     (case js_index stateType (type node) of
        None \<Rightarrow> Inl TypeError
      | Some info \<Rightarrow> Inr (short info))"

text \<open>
  The width of a rule-call node, from the measured length of its label (a measurement
  of the browser, a parameter here).
\<close>

definition resizeNode :: "(string \<Rightarrow> real) \<Rightarrow> IATNGraphLayoutNode \<Rightarrow> IATNGraphLayoutNode" where
  "resizeNode textLength node =
     (if type node = ATNRuleType
      then node\<lparr>width := Some (Fin (max 70 (of_int \<lceil>textLength (name node)\<rceil>) + 20))\<rparr>
      else node)"

record Rendered =
  markers :: "string list"
  figures :: "Figure list"
  stateLabels :: "string list"
  descriptions :: "string list"
  linkLabels :: "tspan list list"

text \<open>
  \<open>render\<close>: the transform and the pins are reset, then the lines, the figures, the
  labels, the widths, the descriptions and the link labels are built in this order, and
  the simulation is created with its forces, which resolves the ends of the links. An
  exception leaves \<open>render\<close> at once. The steps of the simulation and the first paint
  that follow read the resolved graph and raise no exception; the positions they compute
  are the library's and are not part of the result here.
\<close>

definition render ::
  "D3Zoom \<Rightarrow> (string \<Rightarrow> real) \<Rightarrow> ATNGraphRenderer \<Rightarrow> js_error + (ATNGraphRenderer \<times> Rendered)" where
  "render d3 textLength r0 =
     (let r = resetTransformation d3 r0;
          ns = nodes (rdata r);
          ls = links (rdata r)
      in case mapE (markerEnd ns) ls of
           Inl e \<Rightarrow> Inl e
         | Inr ms \<Rightarrow>
        (case mapE (renderFigure (objectName (rdata r))) ns of
           Inl e \<Rightarrow> Inl e
         | Inr fs \<Rightarrow>
        (let ns1 = map (resizeNode textLength) ns
         in case mapE renderDescription ns1 of
              Inl e \<Rightarrow> Inl e
            | Inr ds \<Rightarrow>
           (case forceLink ns1 ls of
              Inl e \<Rightarrow> Inl e
            | Inr ls1 \<Rightarrow>
                Inr (r\<lparr>rdata := (rdata r)\<lparr>nodes := ns1, links := ls1\<rparr>\<rparr>,
                     \<lparr>markers = ms, figures = fs, stateLabels = map name ns,
                      descriptions = ds,
                      linkLabels = appendLinkText (maxLabelCount (rdata r)) ls\<rparr>)))))"

section \<open>Concrete inputs\<close>

text \<open>A basic node at the origin and a rule-call node of width 90 at \<open>(200, 0)\<close>.\<close>

definition w_src :: IATNGraphLayoutNode where
  "w_src = \<lparr>name = ''s1'', type = 1, nx = Some (Fin 0), ny = Some (Fin 0),
            fx = None, fy = None, width = None\<rparr>"

definition w_tgt :: IATNGraphLayoutNode where
  "w_tgt = \<lparr>name = ''expr'', type = 0, nx = Some (Fin 200), ny = Some (Fin 0),
            fx = None, fy = None, width = Some (Fin 90)\<rparr>"

text \<open>A link from the rule-call node to itself: its centre line has length zero.\<close>

definition w_loop :: IATNLink where
  "w_loop = \<lparr>source = Node w_tgt, target = Node w_tgt, labels = []\<rparr>"

text \<open>A link with the four labels a, b, c and d.\<close>

definition w_labels :: "Label list" where
  "w_labels =
     [\<lparr>content = ''a'', lclass = None\<rparr>, \<lparr>content = ''b'', lclass = None\<rparr>,
      \<lparr>content = ''c'', lclass = None\<rparr>, \<lparr>content = ''d'', lclass = None\<rparr>]"

definition w_label_link :: IATNLink where
  "w_label_link = \<lparr>source = Index 0, target = Index 1, labels = w_labels\<rparr>"

text \<open>A rule start node that the caller has pinned at \<open>y = 50\<close>.\<close>

definition w_pinned_start :: IATNGraphLayoutNode where
  "w_pinned_start = \<lparr>name = ''expr'', type = 2, nx = None, ny = None,
                     fx = None, fy = Some (Fin 50), width = None\<rparr>"

text \<open>A drag that starts at \<open>(5, 7)\<close> and two drag-move events.\<close>

definition w_start :: D3DragEvent where
  "w_start = \<lparr>ev_x = Fin 5, ev_y = Fin 7, active = 0\<rparr>"

definition w_moves :: "D3DragEvent list" where
  "w_moves = [\<lparr>ev_x = Fin 12, ev_y = Fin 9, active = 1\<rparr>,
              \<lparr>ev_x = Fin 31, ev_y = Fin (- 30), active = 1\<rparr>]"

definition w_sim :: Simulation where
  "w_sim = \<lparr>alphaTarget = Fin 0, running = False\<rparr>"

text \<open>
  The zoom library as it computes: the identity transform has scale 1 and no
  translation, \<open>scale\<close> multiplies the scale, \<open>translate\<close> adds the offsets times the
  scale. A text measure, a renderer on given nodes and links, a node of the unknown
  type 13, and a link to a node that does not exist.
\<close>

definition w_d3 :: D3Zoom where
  "w_d3 =
     \<lparr>zoomIdentity = \<lparr>scale_k = Fin 1, trans_x = Fin 0, trans_y = Fin 0\<rparr>,
      scale_by = (\<lambda>t k. \<lparr>scale_k = js_mul (scale_k t) k, trans_x = trans_x t,
                          trans_y = trans_y t\<rparr>),
      translate_by = (\<lambda>t x y. \<lparr>scale_k = scale_k t,
                                trans_x = js_add (trans_x t) (js_mul (scale_k t) x),
                                trans_y = js_add (trans_y t) (js_mul (scale_k t) y)\<rparr>)\<rparr>"

definition w_textLength :: "string \<Rightarrow> real" where
  "w_textLength s = 8 * real (length s)"

definition w_renderer :: "IATNGraphLayoutNode list \<Rightarrow> IATNLink list \<Rightarrow> ATNGraphRenderer" where
  "w_renderer ns ls =
     \<lparr>rdata = \<lparr>objectName = ''expr'', maxLabelCount = 3, nodes = ns, links = ls,
               initialScale = Fin (1 / 2),
               initialTranslation_x = None, initialTranslation_y = None\<rparr>,
      clientWidth = Some (Fin 800), clientHeight = Some (Fin 600),
      currentTransformation = \<lparr>scale_k = Fin 1, trans_x = Fin 0, trans_y = Fin 0\<rparr>\<rparr>"

definition w_unknown :: IATNGraphLayoutNode where
  "w_unknown = \<lparr>name = ''s9'', type = 13, nx = None, ny = None,
                fx = None, fy = None, width = None\<rparr>"

definition w_good_link :: IATNLink where
  "w_good_link = \<lparr>source = Index 0, target = Index 1, labels = []\<rparr>"

definition w_bad_link :: IATNLink where
  "w_bad_link = \<lparr>source = Index 0, target = Index 5, labels = []\<rparr>"

text \<open>A link from a node that does not exist.\<close>

definition w_bad_source :: IATNLink where
  "w_bad_source = \<lparr>source = Index 5, target = Index 1, labels = []\<rparr>"

text \<open>A renderer whose caller asks for the initial scale 10.\<close>

definition w_scale10 :: ATNGraphRenderer where
  "w_scale10 =
     \<lparr>rdata = \<lparr>objectName = ''expr'', maxLabelCount = 3, nodes = [], links = [],
               initialScale = Fin 10,
               initialTranslation_x = None, initialTranslation_y = None\<rparr>,
      clientWidth = Some (Fin 800), clientHeight = Some (Fin 600),
      currentTransformation = \<lparr>scale_k = Fin 1, trans_x = Fin 0, trans_y = Fin 0\<rparr>\<rparr>"

text \<open>Three zoom requests: far in, far out, and without bound.\<close>

definition w_gestures :: "ZoomTransform list" where
  "w_gestures =
     [\<lparr>scale_k = Fin 100, trans_x = Fin 10, trans_y = Fin 0\<rparr>,
      \<lparr>scale_k = Fin (1 / 1000), trans_x = Fin 10, trans_y = Fin 5\<rparr>,
      \<lparr>scale_k = PInf, trans_x = Fin 0, trans_y = Fin 0\<rparr>]"

section \<open>Facts about the numbers\<close>

lemma js_neg_fin: "finite_num a \<Longrightarrow> finite_num (js_neg a) \<and> val (js_neg a) = - val a"
  by (cases a) auto

lemma mk_fin_fin: "finite_num (mk_fin s r) \<and> val (mk_fin s r) = r"
  by (simp add: mk_fin_def mk_zero_def)

lemma js_add_fin:
  "finite_num a \<Longrightarrow> finite_num b \<Longrightarrow>
     finite_num (js_add a b) \<and> val (js_add a b) = val a + val b"
  by (cases a; cases b) (auto simp: js_add_def mk_zero_def)

lemma js_sub_fin:
  "finite_num a \<Longrightarrow> finite_num b \<Longrightarrow>
     finite_num (js_sub a b) \<and> val (js_sub a b) = val a - val b"
  by (simp add: js_sub_def js_add_fin js_neg_fin)

lemma js_mul_fin:
  "finite_num a \<Longrightarrow> finite_num b \<Longrightarrow>
     finite_num (js_mul a b) \<and> val (js_mul a b) = val a * val b"
  by (cases a; cases b) (auto simp: js_mul_def mk_fin_def mk_zero_def)

lemma js_div_fin:
  "finite_num a \<Longrightarrow> finite_num b \<Longrightarrow> val b \<noteq> 0 \<Longrightarrow>
     finite_num (js_div a b) \<and> val (js_div a b) = val a / val b"
  by (cases a; cases b) (auto simp: js_div_def mk_fin_def mk_zero_def)

lemma js_div_zero:
  "finite_num a \<Longrightarrow> finite_num b \<Longrightarrow> val b = 0 \<Longrightarrow> \<not> finite_num (js_div a b)"
  by (cases a; cases b) (auto simp: js_div_def mk_inf_def)

lemma js_le_fin: "finite_num a \<Longrightarrow> finite_num b \<Longrightarrow> js_le a b = (val a \<le> val b)"
  by (cases a; cases b) (auto simp: js_le_def)

lemma not_in_unit: "\<not> finite_num s \<Longrightarrow> \<not> (js_ge s (Fin 0) \<and> js_le s (Fin 1))"
  by (cases s) (auto simp: js_le_def js_ge_def)

lemma nullish0_fin: "fin_opt v \<Longrightarrow> finite_num (nullish0 v)"
  by (cases v) (simp_all add: fin_opt_def nullish0_def)

lemmas fin_ops = js_add_fin js_sub_fin js_mul_fin js_neg_fin

section \<open>Facts about \<open>lineIntersection\<close>\<close>

lemma lineIntersection_parallel:
  assumes "fin_line l1" "fin_line l2" "denominator l1 l2 = 0"
  shows "lineIntersection l1 l2 = None"
proof -
  let ?s1X = "js_sub (x2 l1) (x1 l1)" and ?s1Y = "js_sub (y2 l1) (y1 l1)"
  let ?s2X = "js_sub (x2 l2) (x1 l2)" and ?s2Y = "js_sub (y2 l2) (y1 l2)"
  let ?d = "js_add (js_mul (js_neg ?s2X) ?s1Y) (js_mul ?s1X ?s2Y)"
  let ?n = "js_add (js_mul (js_neg ?s1Y) (js_sub (x1 l1) (x1 l2)))
                   (js_mul ?s1X (js_sub (y1 l1) (y1 l2)))"
  from assms have d: "finite_num ?d" "val ?d = 0"
    by (simp_all add: fin_line_def denominator_def fin_ops)
  from assms have n: "finite_num ?n"
    by (simp add: fin_line_def fin_ops)
  have "\<not> finite_num (js_div ?n ?d)"
    using n d by (rule js_div_zero)
  then have "\<not> (js_ge (js_div ?n ?d) (Fin 0) \<and> js_le (js_div ?n ?d) (Fin 1))"
    by (rule not_in_unit)
  then show ?thesis
    by (auto simp: lineIntersection_def Let_def)
qed

lemma lineIntersection_regular:
  assumes "fin_line l1" "fin_line l2" "denominator l1 l2 \<noteq> 0"
  shows "if in_unit (param_s l1 l2) \<and> in_unit (param_t l1 l2)
         then \<exists>p. lineIntersection l1 l2 = Some p \<and> finite_num (px p) \<and> finite_num (py p) \<and>
                (val (px p), val (py p)) = crossing l1 l2
         else lineIntersection l1 l2 = None"
proof -
  let ?s1X = "js_sub (x2 l1) (x1 l1)" and ?s1Y = "js_sub (y2 l1) (y1 l1)"
  let ?s2X = "js_sub (x2 l2) (x1 l2)" and ?s2Y = "js_sub (y2 l2) (y1 l2)"
  let ?d = "js_add (js_mul (js_neg ?s2X) ?s1Y) (js_mul ?s1X ?s2Y)"
  let ?n = "js_add (js_mul (js_neg ?s1Y) (js_sub (x1 l1) (x1 l2)))
                   (js_mul ?s1X (js_sub (y1 l1) (y1 l2)))"
  let ?m = "js_sub (js_mul ?s2X (js_sub (y1 l1) (y1 l2)))
                   (js_mul ?s2Y (js_sub (x1 l1) (x1 l2)))"
  from assms have d: "finite_num ?d" "val ?d = denominator l1 l2"
    by (simp_all add: fin_line_def denominator_def fin_ops)
  from assms have n: "finite_num ?n" "val ?n = param_s l1 l2 * denominator l1 l2"
    by (simp_all add: fin_line_def param_s_def fin_ops)
  from assms have m: "finite_num ?m" "val ?m = param_t l1 l2 * denominator l1 l2"
    by (simp_all add: fin_line_def param_t_def fin_ops)
  have s: "finite_num (js_div ?n ?d)" "val (js_div ?n ?d) = param_s l1 l2"
    using js_div_fin [of ?n ?d] n d assms(3) by simp_all
  have t: "finite_num (js_div ?m ?d)" "val (js_div ?m ?d) = param_t l1 l2"
    using js_div_fin [of ?m ?d] m d assms(3) by simp_all
  have guard: "(js_ge (js_div ?n ?d) (Fin 0) \<and> js_le (js_div ?n ?d) (Fin 1) \<and>
      js_ge (js_div ?m ?d) (Fin 0) \<and> js_le (js_div ?m ?d) (Fin 1))
      = (in_unit (param_s l1 l2) \<and> in_unit (param_t l1 l2))"
    using s t by (auto simp add: js_ge_def js_le_fin in_unit_def)
  have pt: "finite_num (js_add (x1 l1) (js_mul (js_div ?m ?d) ?s1X))"
    "val (js_add (x1 l1) (js_mul (js_div ?m ?d) ?s1X))
       = val (x1 l1) + param_t l1 l2 * (val (x2 l1) - val (x1 l1))"
    "finite_num (js_add (y1 l1) (js_mul (js_div ?m ?d) ?s1Y))"
    "val (js_add (y1 l1) (js_mul (js_div ?m ?d) ?s1Y))
       = val (y1 l1) + param_t l1 l2 * (val (y2 l1) - val (y1 l1))"
    using assms(1) t by (simp_all add: fin_line_def fin_ops)
  show ?thesis
    using guard pt by (simp add: lineIntersection_def Let_def crossing_def)
qed

lemma lineIntersection_refines:
  assumes "fin_line l1" "fin_line l2"
  shows "case lineIntersection l1 l2 of
           None \<Rightarrow> \<not> crosses l1 l2
         | Some p \<Rightarrow> crosses l1 l2 \<and> finite_num (px p) \<and> finite_num (py p) \<and>
                     (val (px p), val (py p)) = crossing l1 l2"
proof (cases "denominator l1 l2 = 0")
  case True
  then show ?thesis
    using lineIntersection_parallel [OF assms] by (simp add: crosses_def)
next
  case False
  then show ?thesis
    using lineIntersection_regular [OF assms False]
    by (auto simp: crosses_def split: if_splits)
qed

section \<open>Evaluating the operations on finite numbers\<close>

lemma js_add_Fin [simp]:
  "js_add (Fin a) (Fin b) = Fin (a + b)"
  "js_add NZero (Fin b) = Fin b"
  "js_add (Fin a) NZero = Fin a"
  "js_add NZero NZero = NZero"
  by (auto simp: js_add_def mk_zero_def)

lemma js_sub_Fin [simp]:
  "js_sub (Fin a) (Fin b) = Fin (a - b)"
  "js_sub NZero (Fin b) = (if b = 0 then NZero else Fin (- b))"
  "js_sub (Fin a) NZero = Fin a"
  by (auto simp: js_sub_def js_add_def mk_zero_def)

lemma js_mul_Fin [simp]:
  "js_mul (Fin a) (Fin b) = (if a * b = 0 \<and> (a < 0) \<noteq> (b < 0) then NZero else Fin (a * b))"
  "js_mul NZero (Fin b) = (if b < 0 then Fin 0 else NZero)"
  "js_mul (Fin a) NZero = (if a < 0 then Fin 0 else NZero)"
  by (auto simp: js_mul_def mk_fin_def mk_zero_def)

lemma js_div_Fin [simp]:
  "js_div (Fin a) (Fin b) =
     (if b = 0 then (if a = 0 then NaN else if a < 0 then NInf else PInf)
      else if a = 0 \<and> b < 0 then NZero else Fin (a / b))"
  "js_div NZero (Fin b) = (if b = 0 then NaN else if b < 0 then Fin 0 else NZero)"
  by (auto simp: js_div_def mk_fin_def mk_zero_def mk_inf_def)

lemma js_cmp_Fin [simp]:
  "js_le (Fin a) (Fin b) = (a \<le> b)"
  "js_le NZero (Fin b) = (0 \<le> b)"
  "js_le (Fin a) NZero = (a \<le> 0)"
  "js_le NaN c = False" "js_le c NaN = False"
  "js_le PInf (Fin b) = False" "js_le (Fin a) NInf = False"
  "js_le (Fin a) PInf = True" "js_le NInf (Fin b) = True"
  "js_ge c d = js_le d c"
  by (auto simp: js_le_def js_ge_def)

lemma nullish0_simps [simp]: "nullish0 None = Fin 0" "nullish0 (Some v) = v"
  by (simp_all add: nullish0_def)

section \<open>Facts about \<open>endCoordinate\<close>\<close>

lemma endCoordinate_firstIntersection:
  assumes "type tgt = ATNRuleType"
  shows "endCoordinate h \<lparr>source = Node src, target = Node tgt, labels = ls\<rparr> =
           (case firstIntersection (centreLine src tgt) (targetEdges tgt) of
              Some p \<Rightarrow> if h then px p else py p
            | None \<Rightarrow> nullish0 (if h then nx tgt else ny tgt))"
  using assms
  by (simp add: endCoordinate_def isATNLayoutNode_def centreLine_def targetEdges_def Let_def
      split: option.splits)

text \<open>
  C5. For segments with finite coordinates, \<open>lineIntersection\<close> returns either no
  intersection or a point whose two components are finite numbers; it returns no
  intersection whenever the denominator of the formula is zero, which covers parallel
  segments and a segment of length zero on either side. When none of the four edges
  yields an intersection, \<open>endCoordinate\<close> returns the coordinate of the centre of the
  target node.
\<close>

theorem lineIntersection_degenerate_geometry:
  assumes "fin_line line1" and "fin_line line2"
  shows "(lineIntersection line1 line2 = None \<or>
          (\<exists>p. lineIntersection line1 line2 = Some p \<and> finite_num (px p) \<and> finite_num (py p))) \<and>
         (denominator line1 line2 = 0 \<longrightarrow> lineIntersection line1 line2 = None) \<and>
         (val (x1 line1) = val (x2 line1) \<and> val (y1 line1) = val (y2 line1)
            \<longrightarrow> lineIntersection line1 line2 = None) \<and>
         (val (x1 line2) = val (x2 line2) \<and> val (y1 line2) = val (y2 line2)
            \<longrightarrow> lineIntersection line1 line2 = None) \<and>
         (type tgt = ATNRuleType \<and>
          list_all (\<lambda>e. lineIntersection (centreLine src tgt) e = None) (targetEdges tgt)
            \<longrightarrow> endCoordinate h \<lparr>source = Node src, target = Node tgt, labels = ls\<rparr>
                  = nullish0 (if h then nx tgt else ny tgt))"
proof -
  have a: "lineIntersection line1 line2 = None \<or>
          (\<exists>p. lineIntersection line1 line2 = Some p \<and> finite_num (px p) \<and> finite_num (py p))"
    using lineIntersection_refines [OF assms] by (cases "lineIntersection line1 line2") simp_all
  have b: "denominator line1 line2 = 0 \<longrightarrow> lineIntersection line1 line2 = None"
    using lineIntersection_parallel [OF assms] by simp
  have c: "val (x1 line1) = val (x2 line1) \<and> val (y1 line1) = val (y2 line1)
            \<longrightarrow> lineIntersection line1 line2 = None"
    using lineIntersection_parallel [OF assms] by (simp add: denominator_def)
  have d: "val (x1 line2) = val (x2 line2) \<and> val (y1 line2) = val (y2 line2)
            \<longrightarrow> lineIntersection line1 line2 = None"
    using lineIntersection_parallel [OF assms] by (simp add: denominator_def)
  have e: "type tgt = ATNRuleType \<and>
          list_all (\<lambda>e. lineIntersection (centreLine src tgt) e = None) (targetEdges tgt)
            \<longrightarrow> endCoordinate h \<lparr>source = Node src, target = Node tgt, labels = ls\<rparr>
                  = nullish0 (if h then nx tgt else ny tgt)"
    by (simp add: endCoordinate_firstIntersection targetEdges_def Let_def)
  show ?thesis
    using a b c d e by blast
qed

lemma w_loop_edges:
  "list_all (\<lambda>e. lineIntersection (centreLine w_tgt w_tgt) e = None) (targetEdges w_tgt)"
  by (simp add: centreLine_def targetEdges_def w_tgt_def lineIntersection_def Let_def)

theorem lineIntersection_degenerate_geometry_witness:
  "fin_line (centreLine w_tgt w_tgt) \<and>
   denominator (centreLine w_tgt w_tgt) (centreLine w_tgt w_tgt) = 0 \<and>
   val (x1 (centreLine w_tgt w_tgt)) = val (x2 (centreLine w_tgt w_tgt)) \<and>
   val (y1 (centreLine w_tgt w_tgt)) = val (y2 (centreLine w_tgt w_tgt)) \<and>
   lineIntersection (centreLine w_tgt w_tgt) (centreLine w_tgt w_tgt) = None \<and>
   type w_tgt = ATNRuleType \<and>
   list_all (\<lambda>e. lineIntersection (centreLine w_tgt w_tgt) e = None) (targetEdges w_tgt) \<and>
   endCoordinate True w_loop = Fin 200 \<and> endCoordinate False w_loop = Fin 0"
proof -
  have f: "fin_line (centreLine w_tgt w_tgt)"
    by (simp add: fin_line_def centreLine_def w_tgt_def)
  have z: "denominator (centreLine w_tgt w_tgt) (centreLine w_tgt w_tgt) = 0"
    "val (x1 (centreLine w_tgt w_tgt)) = val (x2 (centreLine w_tgt w_tgt))"
    "val (y1 (centreLine w_tgt w_tgt)) = val (y2 (centreLine w_tgt w_tgt))"
    by (simp_all add: denominator_def centreLine_def)
  have t: "type w_tgt = ATNRuleType"
    by (simp add: w_tgt_def ATNRuleType_def)
  have n: "nullish0 (nx w_tgt) = Fin 200" "nullish0 (ny w_tgt) = Fin 0"
    by (simp_all add: w_tgt_def nullish0_def)
  note th = lineIntersection_degenerate_geometry [OF f f, of w_tgt w_tgt _ "[]"]
  show ?thesis
    using th [of True] th [of False] f z t n w_loop_edges
    by (simp add: w_loop_def)
qed

section \<open>Facts about \<open>appendLinkText\<close>\<close>

lemma appendLabels_take:
  assumes "0 \<le> lineNumber" and "lineNumber < m" and "m - lineNumber \<le> int (length ls)"
  shows "appendLabels m n lineNumber ls =
           map label_span (take (nat (m - lineNumber)) ls) @
           (if int n - m > 0 then [summary_span m n] else [])"
  using assms
proof (induction ls arbitrary: lineNumber)
  case Nil
  then show ?case by simp
next
  case (Cons label rest)
  show ?case
  proof (cases "lineNumber + 1 = m")
    case True
    then have "nat (m - lineNumber) = Suc 0" by simp
    then show ?thesis using True by (simp add: summary_span_def)
  next
    case False
    then have n: "nat (m - lineNumber) = Suc (nat (m - (lineNumber + 1)))"
      using Cons.prems by simp
    have "appendLabels m n (lineNumber + 1) rest =
           map label_span (take (nat (m - (lineNumber + 1))) rest) @
           (if int n - m > 0 then [summary_span m n] else [])"
      using Cons.prems False by (intro Cons.IH) simp_all
    then show ?thesis using False n by simp
  qed
qed

lemma w_linkText:
  "linkText 2 w_label_link =
     [\<lparr>span_text = ''a'', span_class = None\<rparr>, \<lparr>span_text = ''b'', span_class = None\<rparr>,
      \<lparr>span_text = ''2 more ...'', span_class = None\<rparr>]"
  by (simp add: linkText_def w_label_link_def w_labels_def label_span_def number_text_def
      digit_char_def)

text \<open>
  C2, as stated, fails: with the labels a, b, c, d and \<open>maxLabelCount = 2\<close> the link
  gets three lines, a, b and the summary; the second line reads b.
\<close>

theorem linkText_two_lines_counterexample:
  "map span_text (linkText 2 w_label_link) = [''a'', ''b'', ''2 more ...''] \<and>
   length (linkText 2 w_label_link) \<noteq> 2 \<and>
   span_text (linkText 2 w_label_link ! 1) \<noteq> ''2 more ...''"
  by (simp add: w_linkText)

text \<open>
  C2, amended. For a link with \<open>n\<close> labels and \<open>maxLabelCount = m\<close>, \<open>1 \<le> m < n\<close>,
  the rendering has \<open>m + 1\<close> lines: the first \<open>m\<close> labels in order, then one more line,
  the summary, reading the number \<open>n - m\<close> of hidden labels followed by \<open>more ...\<close>.
\<close>

theorem linkText_summary_after_max:
  assumes "1 \<le> m" and "m < int (length (labels link))"
  shows "linkText m link =
           map label_span (take (nat m) (labels link)) @
           [\<lparr>span_text = number_text (int (length (labels link)) - m) @ '' more ...'',
             span_class = None\<rparr>] \<and>
         length (linkText m link) = nat m + 1 \<and>
         map span_text (take (nat m) (linkText m link)) = map content (take (nat m) (labels link))"
proof -
  have "linkText m link =
           map label_span (take (nat m) (labels link)) @
           [summary_span m (length (labels link))]"
    using assms appendLabels_take [of 0 m "labels link" "length (labels link)"]
    by (simp add: linkText_def)
  moreover have "length (take (nat m) (labels link)) = nat m"
    using assms by simp
  ultimately show ?thesis
    by (simp add: summary_span_def label_span_def comp_def)
qed

theorem linkText_summary_after_max_witness:
  "(1::int) \<le> 2 \<and> 2 < int (length (labels w_label_link)) \<and>
   length (linkText 2 w_label_link) = nat 2 + 1 \<and>
   map span_text (take (nat 2) (linkText 2 w_label_link))
     = map content (take (nat 2) (labels w_label_link)) \<and>
   map span_text (linkText 2 w_label_link) = [''a'', ''b'', ''2 more ...'']"
proof -
  have h: "(1::int) \<le> 2" "2 < int (length (labels w_label_link))"
    by (simp_all add: w_label_link_def w_labels_def)
  have e: "map span_text (linkText 2 w_label_link) = [''a'', ''b'', ''2 more ...'']"
    by (simp add: w_linkText)
  show ?thesis
    using linkText_summary_after_max [OF h] h e by blast
qed

section \<open>Facts about \<open>resetNodePositions\<close>\<close>

lemma resetNode_pins:
  "fx (resetNode node) = None"
  "type node = RULE_START \<or> type node = RULE_STOP \<Longrightarrow> fy (resetNode node) = Some (Fin 0)"
  "type node \<noteq> RULE_START \<Longrightarrow> type node \<noteq> RULE_STOP \<Longrightarrow> fy (resetNode node) = None"
  "type node = RULE_START \<Longrightarrow> nx node = None \<Longrightarrow> nx (resetNode node) = Some (Fin (- 1000))"
  "type node \<noteq> RULE_START \<or> nx node \<noteq> None \<Longrightarrow> nx (resetNode node) = nx node"
  by (auto simp: resetNode_def Let_def falsy_def RULE_START_def RULE_STOP_def)

text \<open>
  C3, evaluated at a rule start node that the caller pinned at \<open>y = 50\<close>: the pin is
  cleared before it is tested, and the node ends with \<open>fy = 0\<close>.
\<close>

theorem resetNodePositions_drops_caller_pin:
  "fy w_pinned_start = Some (Fin 50) \<and>
   resetNodePositions [w_pinned_start] =
     [\<lparr>name = ''expr'', type = 2, nx = Some (Fin (- 1000)), ny = None,
       fx = None, fy = Some (Fin 0), width = None\<rparr>]"
  by (simp add: resetNodePositions_def resetNode_def w_pinned_start_def RULE_START_def
      falsy_def Let_def)

section \<open>Facts about dragging\<close>

lemma snapToGrid_fin:
  assumes "finite_num v"
  shows "finite_num (snapToGrid v) \<and> val (snapToGrid v) = 20 * of_int (round (val v / 20))"
proof (cases v)
  case (Fin r)
  have "finite_num (js_mul (mk_fin (r / 20 < 0) (of_int \<lfloor>r / 20 + 1 / 2\<rfloor>)) (Fin 20)) \<and>
        val (js_mul (mk_fin (r / 20 < 0) (of_int \<lfloor>r / 20 + 1 / 2\<rfloor>)) (Fin 20))
          = of_int \<lfloor>r / 20 + 1 / 2\<rfloor> * 20"
    using js_mul_fin [of "mk_fin (r / 20 < 0) (of_int \<lfloor>r / 20 + 1 / 2\<rfloor>)" "Fin 20"]
    by (simp add: mk_fin_fin)
  then show ?thesis
    using Fin by (simp add: snapToGrid_def gridSize_def round_def)
next
  case NZero
  then show ?thesis by (simp add: snapToGrid_def gridSize_def)
qed (use assms in simp_all)

lemma snapToGrid_multiple:
  assumes "finite_num v"
  shows "multiple_of_grid (snapToGrid v)"
  using snapToGrid_fin [OF assms] by (simp add: multiple_of_grid_def)

lemma snapToGrid_nearest:
  assumes "finite_num v"
  shows "\<bar>val (snapToGrid v) - val v\<bar> \<le> 10"
proof -
  have "\<bar>of_int (round (val v / 20)) - val v / 20\<bar> \<le> 1 / 2"
    by (rule of_int_round_abs_le)
  then show ?thesis
    using snapToGrid_fin [OF assms] by (simp add: abs_le_iff field_simps)
qed

lemma foldl_dragged_pins:
  assumes "moves \<noteq> []"
  shows "fx (foldl (\<lambda>subject e. dragged e subject) node moves) = Some (snapToGrid (ev_x (last moves)))"
    and "fy (foldl (\<lambda>subject e. dragged e subject) node moves) = Some (snapToGrid (ev_y (last moves)))"
  using assms by (induction moves arbitrary: node rule: rev_induct) (simp_all add: dragged_def)

lemma foldl_dragged_empty:
  "snd (dragSequence start [] st) = (snd st)\<lparr>fx := Some (ev_x start), fy := Some (ev_y start)\<rparr>"
  by (simp add: dragSequence_def dragStarted_def Let_def)

text \<open>
  C4, as stated, fails for a drag without a drag-move event: the drag start pins the
  node at the pointer position as it is, here \<open>(5, 7)\<close>.
\<close>

theorem dragSequence_no_move_counterexample:
  "fx (snd (dragSequence w_start [] (w_sim, w_src))) = Some (Fin 5) \<and>
   fy (snd (dragSequence w_start [] (w_sim, w_src))) = Some (Fin 7) \<and>
   \<not> multiple_of_grid (Fin 5) \<and> \<not> multiple_of_grid (Fin 7)"
  by (simp add: foldl_dragged_empty w_start_def multiple_of_grid_def)

text \<open>
  C4, amended. In a drag with at least one drag-move event (pointer positions finite),
  after each drag-move the two pins are \<open>snapToGrid\<close> of the pointer position of that
  event, where \<open>snapToGrid v = 20 * round (v / 20)\<close> is within 10 of \<open>v\<close>; so the pins
  when the drag ends are exact multiples of 20.
\<close>

theorem dragSequence_pins_on_grid:
  assumes "0 < n" and "n \<le> length moves" and "list_all fin_event moves"
  shows "fx (snd (dragSequence start (take n moves) st)) = Some (snapToGrid (ev_x (moves ! (n - 1)))) \<and>
         fy (snd (dragSequence start (take n moves) st)) = Some (snapToGrid (ev_y (moves ! (n - 1)))) \<and>
         val (snapToGrid (ev_x (moves ! (n - 1)))) = 20 * of_int (round (val (ev_x (moves ! (n - 1))) / 20)) \<and>
         val (snapToGrid (ev_y (moves ! (n - 1)))) = 20 * of_int (round (val (ev_y (moves ! (n - 1))) / 20)) \<and>
         \<bar>val (snapToGrid (ev_x (moves ! (n - 1)))) - val (ev_x (moves ! (n - 1)))\<bar> \<le> 10 \<and>
         \<bar>val (snapToGrid (ev_y (moves ! (n - 1)))) - val (ev_y (moves ! (n - 1)))\<bar> \<le> 10 \<and>
         multiple_of_grid (snapToGrid (ev_x (moves ! (n - 1)))) \<and>
         multiple_of_grid (snapToGrid (ev_y (moves ! (n - 1))))"
proof -
  let ?e = "moves ! (n - 1)"
  have ne: "take n moves \<noteq> []"
    using assms(1,2) by auto
  have l: "last (take n moves) = ?e"
  proof -
    have "last (take n moves) = take n moves ! (length (take n moves) - 1)"
      using ne by (rule last_conv_nth)
    also have "\<dots> = take n moves ! (n - 1)"
      using assms(2) by simp
    also have "\<dots> = ?e"
      using assms(1) by simp
    finally show ?thesis .
  qed
  have "?e \<in> set moves"
    using assms(1,2) by simp
  then have f: "finite_num (ev_x ?e)" "finite_num (ev_y ?e)"
    using assms(3) by (simp_all add: list_all_iff fin_event_def)
  have p: "fx (snd (dragSequence start (take n moves) st)) = Some (snapToGrid (ev_x ?e))"
    "fy (snd (dragSequence start (take n moves) st)) = Some (snapToGrid (ev_y ?e))"
    using foldl_dragged_pins [OF ne] l by (simp_all add: dragSequence_def Let_def)
  show ?thesis
    using p snapToGrid_fin [OF f(1)] snapToGrid_fin [OF f(2)]
      snapToGrid_nearest [OF f(1)] snapToGrid_nearest [OF f(2)]
      snapToGrid_multiple [OF f(1)] snapToGrid_multiple [OF f(2)]
    by simp
qed

lemma w_snaps: "snapToGrid (Fin 31) = Fin 40" "snapToGrid (Fin (- 30)) = Fin (- 20)"
  by (simp_all add: snapToGrid_def gridSize_def mk_fin_def)

theorem dragSequence_pins_on_grid_witness:
  "(0::nat) < 2 \<and> 2 \<le> length w_moves \<and> list_all fin_event w_moves \<and>
   fx (snd (dragSequence w_start (take 2 w_moves) (w_sim, w_src)))
     = Some (snapToGrid (ev_x (w_moves ! (2 - 1)))) \<and>
   multiple_of_grid (snapToGrid (ev_x (w_moves ! (2 - 1)))) \<and>
   snapToGrid (ev_x (w_moves ! (2 - 1))) = Fin 40 \<and>
   snapToGrid (ev_y (w_moves ! (2 - 1))) = Fin (- 20)"
proof -
  have h: "(0::nat) < 2" "2 \<le> length w_moves" "list_all fin_event w_moves"
    by (simp_all add: w_moves_def fin_event_def)
  have e: "snapToGrid (ev_x (w_moves ! (2 - 1))) = Fin 40"
    "snapToGrid (ev_y (w_moves ! (2 - 1))) = Fin (- 20)"
    by (simp_all add: w_moves_def w_snaps)
  show ?thesis
    using dragSequence_pins_on_grid [OF h, of w_start "(w_sim, w_src)"] h e by blast
qed

section \<open>Facts about \<open>render\<close>\<close>

lemma mapE_all:
  assumes "list_all (\<lambda>x. \<exists>y. f x = Inr y) xs"
  shows "mapE f xs = Inr (map (\<lambda>x. projr (f x)) xs)"
  using assms by (induction xs) auto

lemma mapE_first_error:
  assumes "\<not> list_all (\<lambda>x. \<exists>y. f x = Inr y) xs"
  shows "\<exists>x \<in> set xs. \<exists>e. f x = Inl e \<and> mapE f xs = Inl e"
  using assms
proof (induction xs)
  case Nil
  then show ?case by simp
next
  case (Cons x xs)
  show ?case
  proof (cases "f x")
    case (Inl e)
    then show ?thesis by auto
  next
    case (Inr y)
    then have "\<not> list_all (\<lambda>x. \<exists>y. f x = Inr y) xs"
      using Cons.prems by simp
    then obtain z e where "z \<in> set xs" "f z = Inl e" "mapE f xs = Inl e"
      using Cons.IH by blast
    then show ?thesis using Inr by auto
  qed
qed

lemma mapE_error_from:
  assumes "mapE f xs = Inl e"
  shows "\<exists>x \<in> set xs. f x = Inl e"
  using assms
  by (induction xs) (auto split: sum.splits)

lemma mapE_some:
  assumes "\<not> list_all (\<lambda>x. \<exists>y. f x = Inr y) xs"
    and "\<And>x e. f x = Inl e \<Longrightarrow> e = TypeError"
  shows "mapE f xs = Inl TypeError"
  using mapE_first_error [OF assms(1)] assms(2) by auto

lemma length_stateType: "length stateType = 13"
  by (simp add: stateType_def)

lemma stateType_lookup:
  "js_index stateType t = (if 0 \<le> t \<and> t \<le> 12 then Some (stateType ! nat t) else None)"
  by (auto simp: js_index_def length_stateType)

lemma markerEnd_valid:
  "valid_target ns link \<Longrightarrow> markerEnd ns link = Inr (markerFor ns link)"
  "\<not> valid_target ns link \<Longrightarrow> markerEnd ns link = Inl TypeError"
  by (auto simp: valid_target_def markerEnd_def markerFor_def js_index_def split: NodeRef.splits)

lemma markerEnd_Inr_iff: "(\<exists>m. markerEnd ns link = Inr m) = valid_target ns link"
  using markerEnd_valid [of ns link] by (cases "valid_target ns link") auto

lemma markerEnd_error: "markerEnd ns link = Inl e \<Longrightarrow> e = TypeError"
  using markerEnd_valid [of ns link] by (cases "valid_target ns link") auto

lemma renderFigure_known:
  "known_type node \<Longrightarrow>
     renderFigure objName node =
       Inr \<lparr>shape = (if type node = ATNRuleType
                      then Rect 5 (if name node = objName then 20 else 5) else Circle 30),
            cssClass = (if name node = objName
                        then (''state '' @ short (stateType ! nat (type node))) @ '' recursive''
                        else ''state '' @ short (stateType ! nat (type node))),
            title = long (stateType ! nat (type node))\<rparr>"
  "\<not> known_type node \<Longrightarrow> renderFigure objName node = Inl TypeError"
  by (auto simp: renderFigure_def known_type_def stateType_lookup Let_def)

lemma renderDescription_known:
  "known_type node \<Longrightarrow> renderDescription node = Inr (short (stateType ! nat (type node)))"
  "\<not> known_type node \<Longrightarrow> renderDescription node = Inl TypeError"
  by (auto simp: renderDescription_def known_type_def stateType_lookup)

lemma renderFigure_Inr_iff: "(\<exists>f. renderFigure objName node = Inr f) = known_type node"
  using renderFigure_known [of node objName] by (cases "known_type node") auto

lemma renderDescription_Inr_iff: "(\<exists>d. renderDescription node = Inr d) = known_type node"
  using renderDescription_known [of node] by (cases "known_type node") auto

lemma renderFigure_error: "renderFigure objName node = Inl e \<Longrightarrow> e = TypeError"
  using renderFigure_known [of node objName] by (cases "known_type node") auto

lemma type_resetNode [simp]: "type (resetNode node) = type node"
  by (simp add: resetNode_def Let_def)

lemma type_resizeNode [simp]: "type (resizeNode textLength node) = type node"
  by (simp add: resizeNode_def)

lemma known_type_reset [simp]: "known_type (resetNode node) = known_type node"
  by (simp add: known_type_def)

lemma known_type_resize [simp]: "known_type (resizeNode textLength node) = known_type node"
  by (simp add: known_type_def)

lemma valid_target_reset [simp]: "valid_target (resetNodePositions ns) link = valid_target ns link"
  by (simp add: valid_target_def resetNodePositions_def split: NodeRef.splits)

lemma markerFor_reset:
  "valid_target ns link \<Longrightarrow> markerFor (resetNodePositions ns) link = markerFor ns link"
  by (auto simp: valid_target_def markerFor_def resetNodePositions_def split: NodeRef.splits)

lemma nodes_reset [simp]:
  "nodes (rdata (resetTransformation d3 r)) = resetNodePositions (nodes (rdata r))"
  "links (rdata (resetTransformation d3 r)) = links (rdata r)"
  "objectName (rdata (resetTransformation d3 r)) = objectName (rdata r)"
  "maxLabelCount (rdata (resetTransformation d3 r)) = maxLabelCount (rdata r)"
  by (simp_all add: resetTransformation_def zoom_transform_def Let_def)

lemma resolveLink_cases:
  assumes "length ns1 = length ns" and "valid_target ns link"
  shows "valid_source ns link \<Longrightarrow> \<exists>l. resolveLink ns1 link = Inr l"
    and "\<not> valid_source ns link \<Longrightarrow>
           \<exists>i. source link = Index i \<and> \<not> (0 \<le> i \<and> i < int (length ns)) \<and>
               resolveLink ns1 link = Inl (Error (''node not found: '' @ number_text i))"
  using assms
  by (auto simp: resolveLink_def findNode_def valid_source_def valid_target_def js_index_def
      split: NodeRef.splits)

lemma render_fails_on_target:
  assumes "\<not> list_all (valid_target (nodes (rdata r))) (links (rdata r))"
  shows "render d3 textLength r = Inl TypeError"
proof -
  have "mapE (markerEnd (resetNodePositions (nodes (rdata r)))) (links (rdata r)) = Inl TypeError"
    using assms by (intro mapE_some) (simp_all add: markerEnd_Inr_iff markerEnd_error)
  then show ?thesis
    by (simp add: render_def Let_def)
qed

lemma render_fails_on_type:
  assumes "\<not> list_all known_type (nodes (rdata r))"
  shows "render d3 textLength r = Inl TypeError"
proof (cases "mapE (markerEnd (resetNodePositions (nodes (rdata r)))) (links (rdata r))")
  case (Inl e)
  then have "e = TypeError"
    using mapE_error_from [OF Inl] by (auto dest: markerEnd_error)
  then show ?thesis using Inl by (simp add: render_def Let_def)
next
  case (Inr ms)
  have "mapE (renderFigure (objectName (rdata r))) (resetNodePositions (nodes (rdata r)))
          = Inl TypeError"
    using assms
    by (intro mapE_some)
       (simp_all add: renderFigure_Inr_iff renderFigure_error resetNodePositions_def list_all_iff)
  then show ?thesis
    using Inr by (simp add: render_def Let_def)
qed

lemma render_upto_layout:
  assumes "list_all (valid_target (nodes (rdata r))) (links (rdata r))"
    and "list_all known_type (nodes (rdata r))"
  shows "render d3 textLength r =
     (case forceLink (map (resizeNode textLength) (resetNodePositions (nodes (rdata r))))
             (links (rdata r)) of
        Inl e \<Rightarrow> Inl e
      | Inr ls1 \<Rightarrow>
          Inr ((resetTransformation d3 r)
                 \<lparr>rdata := (rdata (resetTransformation d3 r))
                    \<lparr>nodes := map (resizeNode textLength) (resetNodePositions (nodes (rdata r))),
                      links := ls1\<rparr>\<rparr>,
               \<lparr>markers = map (markerFor (nodes (rdata r))) (links (rdata r)),
                figures = map (\<lambda>n. projr (renderFigure (objectName (rdata r)) n))
                            (resetNodePositions (nodes (rdata r))),
                stateLabels = map name (resetNodePositions (nodes (rdata r))),
                descriptions = map (\<lambda>n. projr (renderDescription n))
                            (map (resizeNode textLength) (resetNodePositions (nodes (rdata r)))),
                linkLabels = appendLinkText (maxLabelCount (rdata r)) (links (rdata r))\<rparr>))"
proof -
  let ?ns = "resetNodePositions (nodes (rdata r))"
  have "mapE (markerEnd ?ns) (links (rdata r))
             = Inr (map (\<lambda>l. projr (markerEnd ?ns l)) (links (rdata r)))"
    using assms(1) by (intro mapE_all) (simp add: markerEnd_Inr_iff)
  moreover have "map (\<lambda>l. projr (markerEnd ?ns l)) (links (rdata r))
      = map (markerFor (nodes (rdata r))) (links (rdata r))"
    using assms(1) by (auto simp: list_all_iff markerEnd_valid markerFor_reset)
  ultimately have m: "mapE (markerEnd ?ns) (links (rdata r))
             = Inr (map (markerFor (nodes (rdata r))) (links (rdata r)))"
    by simp
  have f: "mapE (renderFigure (objectName (rdata r))) ?ns
             = Inr (map (\<lambda>n. projr (renderFigure (objectName (rdata r)) n)) ?ns)"
    using assms(2)
    by (intro mapE_all) (simp add: renderFigure_Inr_iff resetNodePositions_def list_all_iff)
  have d: "mapE renderDescription (map (resizeNode textLength) ?ns)
             = Inr (map (\<lambda>n. projr (renderDescription n)) (map (resizeNode textLength) ?ns))"
    using assms(2)
    by (intro mapE_all) (simp add: renderDescription_Inr_iff resetNodePositions_def list_all_iff)
  show ?thesis
    using m f d by (simp add: render_def Let_def comp_def split: sum.splits)
qed

lemma render_fails_on_source:
  assumes "list_all (valid_target (nodes (rdata r))) (links (rdata r))"
    and "list_all known_type (nodes (rdata r))"
    and "\<not> list_all (valid_source (nodes (rdata r))) (links (rdata r))"
  shows "\<exists>link \<in> set (links (rdata r)). \<exists>i.
           source link = Index i \<and> \<not> (0 \<le> i \<and> i < int (length (nodes (rdata r)))) \<and>
           render d3 textLength r = Inl (Error (''node not found: '' @ number_text i))"
proof -
  let ?ns = "nodes (rdata r)"
  let ?ns1 = "map (resizeNode textLength) (resetNodePositions ?ns)"
  have len: "length ?ns1 = length ?ns"
    by (simp add: resetNodePositions_def)
  have "\<not> list_all (\<lambda>l. \<exists>y. resolveLink ?ns1 l = Inr y) (links (rdata r))"
  proof
    assume a: "list_all (\<lambda>l. \<exists>y. resolveLink ?ns1 l = Inr y) (links (rdata r))"
    have "list_all (valid_source ?ns) (links (rdata r))"
      unfolding list_all_iff
    proof
      fix l assume l: "l \<in> set (links (rdata r))"
      then have vt: "valid_target ?ns l" and ok: "\<exists>y. resolveLink ?ns1 l = Inr y"
        using assms(1) a by (auto simp: list_all_iff)
      show "valid_source ?ns l"
        using resolveLink_cases(2) [OF len vt] ok by (cases "valid_source ?ns l") auto
    qed
    then show False using assms(3) by simp
  qed
  then obtain l e where l: "l \<in> set (links (rdata r))" "resolveLink ?ns1 l = Inl e"
    and fl: "forceLink ?ns1 (links (rdata r)) = Inl e"
    using mapE_first_error [of "resolveLink ?ns1" "links (rdata r)"]
    by (auto simp: forceLink_def)
  from l(1) have vt: "valid_target ?ns l"
    using assms(1) by (auto simp: list_all_iff)
  have "\<not> valid_source ?ns l"
    using resolveLink_cases(1) [OF len vt] l(2) by auto
  then obtain i where i: "source l = Index i" "\<not> (0 \<le> i \<and> i < int (length ?ns))"
    "resolveLink ?ns1 l = Inl (Error (''node not found: '' @ number_text i))"
    using resolveLink_cases(2) [OF len vt] by blast
  then have "e = Error (''node not found: '' @ number_text i)"
    using l(2) by simp
  then have "render d3 textLength r = Inl (Error (''node not found: '' @ number_text i))"
    using render_upto_layout [OF assms(1,2), of d3 textLength] fl by simp
  then show ?thesis
    using l(1) i(1,2) by blast
qed

lemma render_completes:
  assumes "list_all (valid_target (nodes (rdata r))) (links (rdata r))"
    and "list_all known_type (nodes (rdata r))"
    and "list_all (valid_source (nodes (rdata r))) (links (rdata r))"
  shows "\<exists>r' out. render d3 textLength r = Inr (r', out) \<and>
           markers out = map (markerFor (nodes (rdata r))) (links (rdata r)) \<and>
           linkLabels out = appendLinkText (maxLabelCount (rdata r)) (links (rdata r)) \<and>
           length (links (rdata r')) = length (links (rdata r)) \<and>
           length (figures out) = length (nodes (rdata r)) \<and>
           length (descriptions out) = length (nodes (rdata r))"
proof -
  let ?ns = "nodes (rdata r)"
  let ?ns1 = "map (resizeNode textLength) (resetNodePositions ?ns)"
  have len: "length ?ns1 = length ?ns"
    by (simp add: resetNodePositions_def)
  have "list_all (\<lambda>l. \<exists>y. resolveLink ?ns1 l = Inr y) (links (rdata r))"
    unfolding list_all_iff
  proof
    fix l assume l: "l \<in> set (links (rdata r))"
    then have "valid_target ?ns l" "valid_source ?ns l"
      using assms(1,3) by (auto simp: list_all_iff)
    then show "\<exists>y. resolveLink ?ns1 l = Inr y"
      using resolveLink_cases(1) [OF len] by blast
  qed
  then have "forceLink ?ns1 (links (rdata r))
      = Inr (map (\<lambda>l. projr (resolveLink ?ns1 l)) (links (rdata r)))"
    unfolding forceLink_def by (rule mapE_all)
  then show ?thesis
    using render_upto_layout [OF assms(1,2), of d3 textLength]
    by (simp add: resetNodePositions_def)
qed

lemma w_render_unknown:
  "render w_d3 w_textLength (w_renderer [w_src, w_unknown] [w_good_link]) = Inl TypeError"
  by (rule render_fails_on_type) (simp add: w_renderer_def known_type_def w_unknown_def)

text \<open>
  C6, as stated, fails: for a node of type 13 the table has no entry, reading its
  \<open>short\<close> name raises a TypeError and \<open>render\<close> ends with it. No shape is chosen.
\<close>

theorem render_unknown_type_counterexample:
  "type w_unknown = 13 \<and>
   renderFigure ''expr'' w_unknown = Inl TypeError \<and>
   renderDescription w_unknown = Inl TypeError \<and>
   render w_d3 w_textLength (w_renderer [w_src, w_unknown] [w_good_link]) = Inl TypeError"
  using w_render_unknown
  by (simp add: renderFigure_known renderDescription_known known_type_def w_unknown_def)

text \<open>
  C6, amended. For a node whose type is one of the 13 variants 0 to 12, shape selection
  succeeds: a rectangle for a rule call (type 0), a circle for every other type, with
  the tooltip of the type, and the description is the short name of the type. For a type outside 0 to 12 there is no fallback: the figure and the description
  raise a TypeError, and so does \<open>render\<close> of a graph with such a node.
\<close>

theorem renderFigure_by_type:
  "(0 \<le> type node \<and> type node \<le> 12 \<longrightarrow>
      (\<exists>fig. renderFigure objName node = Inr fig \<and>
         shape fig = (if type node = 0 then Rect 5 (if name node = objName then 20 else 5)
                      else Circle 30) \<and>
         title fig = long (stateType ! nat (type node))) \<and>
      renderDescription node = Inr (short (stateType ! nat (type node)))) \<and>
   (\<not> (0 \<le> type node \<and> type node \<le> 12) \<longrightarrow>
      renderFigure objName node = Inl TypeError \<and>
      renderDescription node = Inl TypeError \<and>
      (node \<in> set (nodes (rdata r)) \<longrightarrow> render d3 textLength r = Inl TypeError))"
proof (cases "known_type node")
  case True
  then show ?thesis
    using renderFigure_known(1) [OF True, of objName] renderDescription_known(1) [OF True]
    by (simp add: known_type_def ATNRuleType_def)
next
  case False
  have "node \<in> set (nodes (rdata r)) \<longrightarrow> render d3 textLength r = Inl TypeError"
  proof
    assume "node \<in> set (nodes (rdata r))"
    then have "\<not> list_all known_type (nodes (rdata r))"
      using False by (auto simp: list_all_iff)
    then show "render d3 textLength r = Inl TypeError"
      by (rule render_fails_on_type)
  qed
  then show ?thesis
    using False renderFigure_known(2) [OF False, of objName] renderDescription_known(2) [OF False]
    by (simp add: known_type_def)
qed

theorem renderFigure_by_type_witness:
  "(0 \<le> type w_tgt \<and> type w_tgt \<le> 12) \<and>
   (\<exists>fig. renderFigure ''expr'' w_tgt = Inr fig \<and> shape fig = Rect 5 20) \<and>
   renderDescription w_tgt = Inr ''RULE'' \<and>
   \<not> (0 \<le> type w_unknown \<and> type w_unknown \<le> 12) \<and>
   w_unknown \<in> set (nodes (rdata (w_renderer [w_src, w_unknown] [w_good_link]))) \<and>
   renderFigure ''expr'' w_unknown = Inl TypeError \<and>
   render w_d3 w_textLength (w_renderer [w_src, w_unknown] [w_good_link]) = Inl TypeError"
proof -
  have k: "0 \<le> type w_tgt \<and> type w_tgt \<le> 12" "type w_tgt = 0" "name w_tgt = ''expr''"
    by (simp_all add: w_tgt_def)
  have u: "\<not> (0 \<le> type w_unknown \<and> type w_unknown \<le> 12)"
    "w_unknown \<in> set (nodes (rdata (w_renderer [w_src, w_unknown] [w_good_link])))"
    by (simp_all add: w_unknown_def w_renderer_def)
  have s: "short (stateType ! nat 0) = ''RULE''"
    by (simp add: stateType_def)
  show ?thesis
    using renderFigure_by_type [of w_tgt "''expr''"]
      renderFigure_by_type [of w_unknown "''expr''" "w_renderer [w_src, w_unknown] [w_good_link]"
        w_d3 w_textLength]
      k u s
    by auto
qed

lemma w_render_bad_link:
  "render w_d3 w_textLength (w_renderer [w_src, w_tgt] [w_good_link, w_bad_link]) = Inl TypeError"
  by (rule render_fails_on_target)
     (simp add: w_renderer_def valid_target_def w_bad_link_def w_good_link_def)

lemma w_render_bad_source:
  "render w_d3 w_textLength (w_renderer [w_src, w_tgt] [w_good_link, w_bad_source])
     = Inl (Error ''node not found: 5'')"
proof -
  let ?r = "w_renderer [w_src, w_tgt] [w_good_link, w_bad_source]"
  have a: "list_all (valid_target (nodes (rdata ?r))) (links (rdata ?r))"
    "list_all known_type (nodes (rdata ?r))"
    by (simp_all add: w_renderer_def valid_target_def w_good_link_def w_bad_source_def
        known_type_def w_src_def w_tgt_def)
  have "forceLink (map (resizeNode w_textLength) (resetNodePositions (nodes (rdata ?r))))
          (links (rdata ?r)) = Inl (Error ''node not found: 5'')"
    by (simp add: forceLink_def resolveLink_def findNode_def js_index_def w_renderer_def
        resetNodePositions_def w_good_link_def w_bad_source_def number_text_def digit_char_def)
  then show ?thesis
    using render_upto_layout [OF a, of w_d3 w_textLength] by simp
qed

text \<open>
  C7, as stated, fails: with two nodes, a link to node 1 and a link to node 5, the
  second link is not dropped; reading the type of its target raises a TypeError and
  \<open>render\<close> ends with it, for the whole graph. A link from node 5 is not dropped
  either: the force layout throws the error \<open>node not found: 5\<close> and \<open>render\<close> ends
  with it.
\<close>

theorem render_invalid_target_counterexample:
  "valid_target [w_src, w_tgt] w_good_link \<and> \<not> valid_target [w_src, w_tgt] w_bad_link \<and>
   render w_d3 w_textLength (w_renderer [w_src, w_tgt] [w_good_link, w_bad_link]) = Inl TypeError \<and>
   valid_source [w_src, w_tgt] w_good_link \<and> \<not> valid_source [w_src, w_tgt] w_bad_source \<and>
   render w_d3 w_textLength (w_renderer [w_src, w_tgt] [w_good_link, w_bad_source])
     = Inl (Error ''node not found: 5'')"
  using w_render_bad_link w_render_bad_source
  by (simp add: valid_target_def valid_source_def w_good_link_def w_bad_link_def w_bad_source_def)

text \<open>
  C7, amended. No link is dropped, and an invalid reference ends the whole render. When
  a link of the input graph has a target index outside the node sequence, \<open>render\<close>
  raises a TypeError while it sets the markers of the lines. When the targets are inside
  and the node types known but a link has a source index outside the node sequence,
  \<open>render\<close> ends with the error \<open>node not found\<close> of the force layout for such an
  index. When every source and target index is inside the node sequence and every node
  type is known, \<open>render\<close> completes and every link of the input keeps, in the order of
  the input, its marker (the rectangle marker for a rule-call target, the circle marker
  otherwise) and its label.
\<close>

theorem render_keeps_every_link:
  "(\<not> list_all (valid_target (nodes (rdata r))) (links (rdata r)) \<longrightarrow>
      render d3 textLength r = Inl TypeError) \<and>
   (list_all (valid_target (nodes (rdata r))) (links (rdata r)) \<and>
    list_all known_type (nodes (rdata r)) \<and>
    \<not> list_all (valid_source (nodes (rdata r))) (links (rdata r)) \<longrightarrow>
      (\<exists>link \<in> set (links (rdata r)). \<exists>i.
         source link = Index i \<and> \<not> (0 \<le> i \<and> i < int (length (nodes (rdata r)))) \<and>
         render d3 textLength r = Inl (Error (''node not found: '' @ number_text i)))) \<and>
   (list_all (valid_target (nodes (rdata r))) (links (rdata r)) \<and>
    list_all known_type (nodes (rdata r)) \<and>
    list_all (valid_source (nodes (rdata r))) (links (rdata r)) \<longrightarrow>
      (\<exists>r' out. render d3 textLength r = Inr (r', out) \<and>
         markers out = map (markerFor (nodes (rdata r))) (links (rdata r)) \<and>
         linkLabels out = map (linkText (maxLabelCount (rdata r))) (links (rdata r)) \<and>
         length (links (rdata r')) = length (links (rdata r))))"
proof -
  have a: "\<not> list_all (valid_target (nodes (rdata r))) (links (rdata r)) \<longrightarrow>
      render d3 textLength r = Inl TypeError"
    using render_fails_on_target [of r d3 textLength] by simp
  have b: "list_all (valid_target (nodes (rdata r))) (links (rdata r)) \<and>
    list_all known_type (nodes (rdata r)) \<and>
    \<not> list_all (valid_source (nodes (rdata r))) (links (rdata r)) \<longrightarrow>
      (\<exists>link \<in> set (links (rdata r)). \<exists>i.
         source link = Index i \<and> \<not> (0 \<le> i \<and> i < int (length (nodes (rdata r)))) \<and>
         render d3 textLength r = Inl (Error (''node not found: '' @ number_text i)))"
    using render_fails_on_source [of r d3 textLength] by blast
  have c: "list_all (valid_target (nodes (rdata r))) (links (rdata r)) \<and>
    list_all known_type (nodes (rdata r)) \<and>
    list_all (valid_source (nodes (rdata r))) (links (rdata r)) \<longrightarrow>
      (\<exists>r' out. render d3 textLength r = Inr (r', out) \<and>
         markers out = map (markerFor (nodes (rdata r))) (links (rdata r)) \<and>
         linkLabels out = map (linkText (maxLabelCount (rdata r))) (links (rdata r)) \<and>
         length (links (rdata r')) = length (links (rdata r)))"
    using render_completes [of r d3 textLength] by (auto simp: appendLinkText_def)
  show ?thesis using a b c by blast
qed

lemma w_markers:
  "map (markerFor [w_src, w_tgt]) [w_good_link] = [''url(#transitionEndRect)'']"
  by (simp add: markerFor_def w_good_link_def w_tgt_def ATNRuleType_def)

theorem render_keeps_every_link_witness:
  "\<not> list_all (valid_target (nodes (rdata (w_renderer [w_src, w_tgt] [w_good_link, w_bad_link]))))
       (links (rdata (w_renderer [w_src, w_tgt] [w_good_link, w_bad_link]))) \<and>
   render w_d3 w_textLength (w_renderer [w_src, w_tgt] [w_good_link, w_bad_link]) = Inl TypeError \<and>
   list_all (valid_target (nodes (rdata (w_renderer [w_src, w_tgt] [w_good_link, w_bad_source]))))
       (links (rdata (w_renderer [w_src, w_tgt] [w_good_link, w_bad_source]))) \<and>
   list_all known_type (nodes (rdata (w_renderer [w_src, w_tgt] [w_good_link, w_bad_source]))) \<and>
   \<not> list_all (valid_source (nodes (rdata (w_renderer [w_src, w_tgt] [w_good_link, w_bad_source]))))
       (links (rdata (w_renderer [w_src, w_tgt] [w_good_link, w_bad_source]))) \<and>
   (\<exists>e. render w_d3 w_textLength (w_renderer [w_src, w_tgt] [w_good_link, w_bad_source]) = Inl e) \<and>
   list_all (valid_target (nodes (rdata (w_renderer [w_src, w_tgt] [w_good_link]))))
       (links (rdata (w_renderer [w_src, w_tgt] [w_good_link]))) \<and>
   list_all known_type (nodes (rdata (w_renderer [w_src, w_tgt] [w_good_link]))) \<and>
   list_all (valid_source (nodes (rdata (w_renderer [w_src, w_tgt] [w_good_link]))))
       (links (rdata (w_renderer [w_src, w_tgt] [w_good_link]))) \<and>
   (\<exists>r' out. render w_d3 w_textLength (w_renderer [w_src, w_tgt] [w_good_link]) = Inr (r', out) \<and>
      markers out = [''url(#transitionEndRect)''])"
proof -
  have bad: "\<not> list_all (valid_target (nodes (rdata (w_renderer [w_src, w_tgt] [w_good_link, w_bad_link]))))
       (links (rdata (w_renderer [w_src, w_tgt] [w_good_link, w_bad_link])))"
    by (simp add: w_renderer_def valid_target_def w_bad_link_def w_good_link_def)
  have src: "list_all (valid_target (nodes (rdata (w_renderer [w_src, w_tgt] [w_good_link, w_bad_source]))))
       (links (rdata (w_renderer [w_src, w_tgt] [w_good_link, w_bad_source])))"
    "list_all known_type (nodes (rdata (w_renderer [w_src, w_tgt] [w_good_link, w_bad_source])))"
    "\<not> list_all (valid_source (nodes (rdata (w_renderer [w_src, w_tgt] [w_good_link, w_bad_source]))))
       (links (rdata (w_renderer [w_src, w_tgt] [w_good_link, w_bad_source])))"
    by (simp_all add: w_renderer_def valid_target_def valid_source_def w_good_link_def
        w_bad_source_def known_type_def w_src_def w_tgt_def)
  have good: "list_all (valid_target (nodes (rdata (w_renderer [w_src, w_tgt] [w_good_link]))))
       (links (rdata (w_renderer [w_src, w_tgt] [w_good_link])))"
    "list_all known_type (nodes (rdata (w_renderer [w_src, w_tgt] [w_good_link])))"
    "list_all (valid_source (nodes (rdata (w_renderer [w_src, w_tgt] [w_good_link]))))
       (links (rdata (w_renderer [w_src, w_tgt] [w_good_link])))"
    by (simp_all add: w_renderer_def valid_target_def valid_source_def w_good_link_def
        known_type_def w_src_def w_tgt_def)
  have m: "map (markerFor (nodes (rdata (w_renderer [w_src, w_tgt] [w_good_link]))))
       (links (rdata (w_renderer [w_src, w_tgt] [w_good_link]))) = [''url(#transitionEndRect)'']"
    using w_markers by (simp add: w_renderer_def)
  have t1: "render w_d3 w_textLength (w_renderer [w_src, w_tgt] [w_good_link, w_bad_link])
      = Inl TypeError"
    using render_keeps_every_link [of "w_renderer [w_src, w_tgt] [w_good_link, w_bad_link]"
        w_d3 w_textLength] bad by blast
  have t2: "\<exists>e. render w_d3 w_textLength (w_renderer [w_src, w_tgt] [w_good_link, w_bad_source])
      = Inl e"
    using render_keeps_every_link [of "w_renderer [w_src, w_tgt] [w_good_link, w_bad_source]"
        w_d3 w_textLength] src by blast
  have t3: "\<exists>r' out. render w_d3 w_textLength (w_renderer [w_src, w_tgt] [w_good_link])
        = Inr (r', out) \<and> markers out = [''url(#transitionEndRect)'']"
    using render_keeps_every_link [of "w_renderer [w_src, w_tgt] [w_good_link]"
        w_d3 w_textLength] good m by auto
  show ?thesis
    using bad src good t1 t2 t3 by blast
qed

section \<open>Facts about the view transform\<close>

lemma clamp_in_extent:
  assumes "v \<noteq> NaN"
  shows "in_extent (Math_max (fst scaleExtent) (Math_min (snd scaleExtent) v))"
  using assms
  by (cases v) (auto simp: in_extent_def scaleExtent_def Math_max_def Math_min_def)

lemma zoomGesture_in_extent:
  "scale_k g \<noteq> NaN \<Longrightarrow> in_extent (scale_k (zoomGesture t g))"
  by (simp add: zoomGesture_def clamp_in_extent)

lemma zoomGestures_in_extent:
  assumes "list_all (\<lambda>g. scale_k g \<noteq> NaN) gs" and "in_extent (scale_k t) \<or> gs \<noteq> []"
  shows "in_extent (scale_k (zoomGestures t gs))"
  using assms
  by (induction gs rule: rev_induct) (simp_all add: zoomGestures_def zoomGesture_in_extent)

lemma w_scale10_reset:
  "currentTransformation (resetTransformation w_d3 w_scale10)
     = \<lparr>scale_k = Fin 10, trans_x = Fin 4000, trans_y = Fin 3000\<rparr>"
  by (simp add: resetTransformation_def zoom_transform_def Let_def w_d3_def w_scale10_def)

text \<open>
  C8, as stated, fails before the first gesture: the reset of the transformation at the
  start of \<open>render\<close> applies the initial scale of the caller as it is, and with the
  initial scale 10 the view transform has the scale 10, outside \<open>[0.15, 3]\<close>.
\<close>

theorem initial_scale_unclamped_counterexample:
  "scale_k (zoomGestures (currentTransformation (resetTransformation w_d3 w_scale10)) []) = Fin 10 \<and>
   \<not> in_extent (scale_k (zoomGestures (currentTransformation (resetTransformation w_d3 w_scale10)) []))"
  by (simp add: w_scale10_reset zoomGestures_def in_extent_def scaleExtent_def)

text \<open>
  C8, amended. Whatever scales a sequence of zoom gestures asks for (any number, the
  infinities included) and whatever the scale before it, the scale of the view transform
  is in \<open>[0.15, 3]\<close> after each gesture of the sequence. The scale before the first
  gesture is the initial scale of the caller, which is not clamped.
\<close>

theorem zoom_scale_in_extent_after_gesture:
  assumes "list_all (\<lambda>g. scale_k g \<noteq> NaN) gs" and "0 < n" and "n \<le> length gs"
  shows "in_extent (scale_k (zoomGestures t (take n gs))) \<and>
         js_le (Fin (15 / 100)) (scale_k (zoomGestures t (take n gs))) \<and>
         js_le (scale_k (zoomGestures t (take n gs))) (Fin 3)"
proof -
  have a: "list_all (\<lambda>g. scale_k g \<noteq> NaN) (take n gs)"
    using assms(1) by (auto simp: list_all_iff dest: in_set_takeD)
  have b: "in_extent (scale_k t) \<or> take n gs \<noteq> []"
    using assms(2,3) by auto
  have "in_extent (scale_k (zoomGestures t (take n gs)))"
    using a b by (rule zoomGestures_in_extent)
  then show ?thesis
    by (simp add: in_extent_def scaleExtent_def)
qed

lemma w_zoomed:
  "scale_k (zoomGestures (currentTransformation (resetTransformation w_d3 w_scale10))
      (take 1 w_gestures)) = Fin 3"
  "scale_k (zoomGestures (currentTransformation (resetTransformation w_d3 w_scale10))
      (take 2 w_gestures)) = Fin (15 / 100)"
  "scale_k (zoomGestures (currentTransformation (resetTransformation w_d3 w_scale10))
      (take 3 w_gestures)) = Fin 3"
  by (simp_all add: zoomGestures_def zoomGesture_def w_gestures_def scaleExtent_def
      Math_max_def Math_min_def js_le_def)

theorem zoom_scale_in_extent_after_gesture_witness:
  "list_all (\<lambda>g. scale_k g \<noteq> NaN) w_gestures \<and> (0::nat) < 2 \<and> 2 \<le> length w_gestures \<and>
   in_extent (scale_k (zoomGestures (currentTransformation (resetTransformation w_d3 w_scale10))
      (take 2 w_gestures))) \<and>
   scale_k (zoomGestures (currentTransformation (resetTransformation w_d3 w_scale10))
      (take 2 w_gestures)) = Fin (15 / 100)"
proof -
  have h: "list_all (\<lambda>g. scale_k g \<noteq> NaN) w_gestures" "(0::nat) < 2" "2 \<le> length w_gestures"
    by (simp_all add: w_gestures_def)
  show ?thesis
    using zoom_scale_in_extent_after_gesture [OF h] h w_zoomed(2) by blast
qed

lemma resetNode_idem: "resetNode (resetNode node) = resetNode node"
  by (simp add: resetNode_def Let_def falsy_def)

lemma resetNodePositions_idem: "resetNodePositions (resetNodePositions ns) = resetNodePositions ns"
  by (simp add: resetNodePositions_def resetNode_idem)

text \<open>
  C9. Resetting the transformation twice in a row gives the same view transform
  (scale, x and y) as resetting it once; the renderer as a whole is the same too.
\<close>

theorem resetTransformation_idempotent:
  "scale_k (currentTransformation (resetTransformation d3 (resetTransformation d3 r)))
     = scale_k (currentTransformation (resetTransformation d3 r)) \<and>
   trans_x (currentTransformation (resetTransformation d3 (resetTransformation d3 r)))
     = trans_x (currentTransformation (resetTransformation d3 r)) \<and>
   trans_y (currentTransformation (resetTransformation d3 (resetTransformation d3 r)))
     = trans_y (currentTransformation (resetTransformation d3 r)) \<and>
   resetTransformation d3 (resetTransformation d3 r) = resetTransformation d3 r"
  by (simp add: resetTransformation_def zoom_transform_def Let_def resetNodePositions_idem
      cong: option.case_cong)

lemma w_reset_once:
  "currentTransformation (resetTransformation w_d3 (w_renderer [w_pinned_start] []))
     = \<lparr>scale_k = Fin (1 / 2), trans_x = Fin 200, trans_y = Fin 150\<rparr>"
  by (simp add: resetTransformation_def zoom_transform_def Let_def w_d3_def w_renderer_def)

theorem resetTransformation_idempotent_witness:
  "scale_k (currentTransformation
      (resetTransformation w_d3 (resetTransformation w_d3 (w_renderer [w_pinned_start] []))))
     = Fin (1 / 2) \<and>
   trans_x (currentTransformation
      (resetTransformation w_d3 (resetTransformation w_d3 (w_renderer [w_pinned_start] []))))
     = Fin 200 \<and>
   trans_y (currentTransformation
      (resetTransformation w_d3 (resetTransformation w_d3 (w_renderer [w_pinned_start] []))))
     = Fin 150"
  using resetTransformation_idempotent [of w_d3 "w_renderer [w_pinned_start] []"]
  by (simp add: w_reset_once)

end
